theory Spec2Isabelle
  imports Main "HOL-Library.Word"
begin

unbundle bit_operations_syntax

section \<open>Enumeration classes of \<open>synapse_sdk/constants.py\<close>\<close>

text \<open>
  The classes \<open>Tier\<close> and \<open>PricingModel\<close> are plain Python classes whose attributes are
  integer constants and two (respectively one) class methods. A class attribute is either
  an integer, a string (\<open>__module__\<close>, \<open>__doc__\<close>), a \<open>classmethod\<close> object or one of the
  descriptors Python adds to every class (\<open>__dict__\<close>, \<open>__weakref__\<close>).
\<close>

datatype pyval =
    PyInt int
  | PyStr string
  | PyClassMethod string
  | PyDescriptor string

text \<open>\<open>Tier.__dict__.items()\<close> in definition order.\<close>

definition Tier_dict :: "(string \<times> pyval) list" where
  "Tier_dict =
    [(''__module__'', PyStr ''synapse_sdk.constants''),
     (''__doc__'', PyStr ''Reputation tier levels''),
     (''UNVERIFIED'', PyInt 0),
     (''BRONZE'', PyInt 1),
     (''SILVER'', PyInt 2),
     (''GOLD'', PyInt 3),
     (''PLATINUM'', PyInt 4),
     (''DIAMOND'', PyInt 5),
     (''get_name'', PyClassMethod ''get_name''),
     (''get_discount'', PyClassMethod ''get_discount''),
     (''__dict__'', PyDescriptor ''__dict__''),
     (''__weakref__'', PyDescriptor ''__weakref__'')]"

text \<open>\<open>PricingModel.__dict__.items()\<close> in definition order.\<close>

definition PricingModel_dict :: "(string \<times> pyval) list" where
  "PricingModel_dict =
    [(''__module__'', PyStr ''synapse_sdk.constants''),
     (''__doc__'', PyStr ''Service pricing models''),
     (''PER_REQUEST'', PyInt 0),
     (''PER_TOKEN'', PyInt 1),
     (''PER_SECOND'', PyInt 2),
     (''PER_BYTE'', PyInt 3),
     (''SUBSCRIPTION'', PyInt 4),
     (''CUSTOM'', PyInt 5),
     (''get_name'', PyClassMethod ''get_name''),
     (''__dict__'', PyDescriptor ''__dict__''),
     (''__weakref__'', PyDescriptor ''__weakref__'')]"

text \<open>\<open>k.startswith('_')\<close>\<close>

definition startswith_underscore :: "string \<Rightarrow> bool" where
  "startswith_underscore k = (case k of [] \<Rightarrow> False | c # _ \<Rightarrow> c = CHR ''_'')"

text \<open>
  The dictionary comprehension \<open>{v: k for k, v in items if not k.startswith('_')}\<close>:
  the items are visited in order and a later item overwrites an earlier one with the
  same key.
\<close>

definition reverse_lookup :: "(string \<times> pyval) list \<Rightarrow> (pyval \<rightharpoonup> string)" where
  "reverse_lookup items =
     fold (\<lambda>(k, v) m. if startswith_underscore k then m else m(v \<mapsto> k)) items Map.empty"

text \<open>\<open>d.get(key, "UNKNOWN")\<close>\<close>

definition get_or_unknown :: "('k \<rightharpoonup> string) \<Rightarrow> 'k \<Rightarrow> string" where
  "get_or_unknown d key = (case d key of None \<Rightarrow> ''UNKNOWN'' | Some n \<Rightarrow> n)"

text \<open>The \<open>tier_name\<close> field computed in \<open>SynapseClient.get_agent\<close>.\<close>

definition get_agent_tier_name :: "int \<Rightarrow> string" where
  "get_agent_tier_name tier = get_or_unknown (reverse_lookup Tier_dict) (PyInt tier)"

text \<open>The \<open>pricing_model_name\<close> field computed in \<open>SynapseClient.get_service\<close>.\<close>

definition get_service_pricing_model_name :: "int \<Rightarrow> string" where
  "get_service_pricing_model_name model =
     get_or_unknown (reverse_lookup PricingModel_dict) (PyInt model)"

text \<open>\<open>Tier.get_name\<close>: a dictionary literal and \<open>names.get(tier, "UNKNOWN")\<close>.\<close>

definition Tier_get_name :: "int \<Rightarrow> string" where
  "Tier_get_name tier =
     get_or_unknown
       (map_of [(0, ''UNVERIFIED''), (1, ''BRONZE''), (2, ''SILVER''),
                (3, ''GOLD''), (4, ''PLATINUM''), (5, ''DIAMOND'')]) tier"

text \<open>\<open>PricingModel.get_name\<close>.\<close>

definition PricingModel_get_name :: "int \<Rightarrow> string" where
  "PricingModel_get_name model =
     get_or_unknown
       (map_of [(0, ''PER_REQUEST''), (1, ''PER_TOKEN''), (2, ''PER_SECOND''),
                (3, ''PER_BYTE''), (4, ''SUBSCRIPTION''), (5, ''CUSTOM'')]) model"

section \<open>Exceptions\<close>

text \<open>
  A raised exception is recorded by the name of its class, its message and the value of
  the \<open>tx_hash\<close> attribute that \<open>TransactionFailedError.__init__\<close> stores (the second
  constructor argument, \<open>None\<close> when it is not passed; other classes have no such
  attribute and carry \<open>None\<close> here).
\<close>

record exc =
  exc_class :: string
  exc_msg :: string
  exc_tx_hash :: "string option"

definition raise :: "string \<Rightarrow> string \<Rightarrow> exc" where
  "raise cls m = \<lparr>exc_class = cls, exc_msg = m, exc_tx_hash = None\<rparr>"

text \<open>
  \<open>TransactionFailedError(message, tx_hash=None)\<close>: the constructor stores its second
  argument in the attribute \<open>tx_hash\<close> and passes the message on to \<open>Exception\<close>.
\<close>

definition TransactionFailedError :: "string \<Rightarrow> string option \<Rightarrow> exc" where
  "TransactionFailedError message tx_hash =
     \<lparr>exc_class = ''TransactionFailedError'', exc_msg = message, exc_tx_hash = tx_hash\<rparr>"

text \<open>
  The classes of \<open>synapse_sdk/exceptions.py\<close> with their base classes, and the built-in
  classes the client raises: the method resolution order decides what an
  \<open>except\<close> clause catches.
\<close>

definition sdk_exceptions :: "string list" where
  "sdk_exceptions =
     [''InsufficientBalanceError'', ''TransactionFailedError'', ''InvalidSignatureError'',
      ''AgentNotRegisteredError'', ''ServiceNotFoundError'', ''ChannelNotFoundError'',
      ''QuoteExpiredError'', ''EscrowAlreadyReleasedError'', ''DisputeResolutionError'',
      ''StakeTooLowError'', ''RateLimitError'']"

definition class_mro :: "string \<Rightarrow> string list" where
  "class_mro c =
     (if c \<in> set sdk_exceptions then [c, ''SynapseError'', ''Exception'', ''BaseException'', ''object'']
      else if c = ''BaseException'' then [c, ''object'']
      else if c = ''Exception'' then [c, ''BaseException'', ''object'']
      else [c, ''Exception'', ''BaseException'', ''object''])"

definition isinstance_exc :: "exc \<Rightarrow> string \<Rightarrow> bool" where
  "isinstance_exc e c = (c \<in> set (class_mro (exc_class e)))"

section \<open>Bytes, hexadecimal strings and addresses\<close>

type_synonym byte = "8 word"
type_synonym bytes = "byte list"
type_synonym address = "160 word"

definition hex_digit :: "nat \<Rightarrow> char" where
  "hex_digit n = ''0123456789abcdef'' ! (n mod 16)"

definition hex_of_byte :: "byte \<Rightarrow> string" where
  "hex_of_byte b = [hex_digit (unat b div 16), hex_digit (unat b mod 16)]"

text \<open>\<open>bytes.hex()\<close>: two lower-case digits per byte.\<close>

definition bytes_hex :: "bytes \<Rightarrow> string" where
  "bytes_hex bs = concat (map hex_of_byte bs)"

text \<open>
  \<open>HexBytes.hex()\<close> of the \<open>hexbytes\<close> releases that web3 6 depends on: the digits
  with the prefix \<open>0x\<close>.
\<close>

definition HexBytes_hex :: "bytes \<Rightarrow> string" where
  "HexBytes_hex bs = ''0x'' @ bytes_hex bs"

definition hex_value :: "char \<Rightarrow> nat option" where
  "hex_value c =
     (let n = of_char c :: nat in
      if 48 \<le> n \<and> n \<le> 57 then Some (n - 48)
      else if 97 \<le> n \<and> n \<le> 102 then Some (n - 87)
      else if 65 \<le> n \<and> n \<le> 70 then Some (n - 55)
      else None)"

text \<open>Pairs of hexadecimal digits to bytes; \<open>None\<close> on a non-digit or an odd length.\<close>

fun unhexlify :: "string \<Rightarrow> bytes option" where
  "unhexlify [] = Some []"
| "unhexlify [c] = None"
| "unhexlify (c # d # r) =
     (case (hex_value c, hex_value d, unhexlify r) of
        (Some h, Some l, Some bs) \<Rightarrow> Some (of_nat (16 * h + l) # bs)
      | _ \<Rightarrow> None)"

text \<open>The value of a big-endian byte string.\<close>

definition be_nat :: "bytes \<Rightarrow> nat" where
  "be_nat bs = foldl (\<lambda>acc b. 256 * acc + unat b) 0 bs"

definition strip_0x :: "string \<Rightarrow> string" where
  "strip_0x s =
     (case s of c # d # r \<Rightarrow> if c = CHR ''0'' \<and> (d = CHR ''x'' \<or> d = CHR ''X'') then r else s
      | _ \<Rightarrow> s)"

text \<open>
  \<open>Web3.to_checksum_address\<close> on a string: the text must be 40 hexadecimal digits, with
  or without the prefix \<open>0x\<close>, in any letter case; anything else raises \<open>ValueError\<close>.
  The result is the same address in checksum spelling; the model keeps the 160-bit value
  that every spelling of an address denotes.
\<close>

definition to_checksum_address :: "string \<Rightarrow> exc + address" where
  "to_checksum_address s =
     (case unhexlify (strip_0x s) of
        Some bs \<Rightarrow> if length bs = 20 then Inr (of_nat (be_nat bs))
                   else Inl (raise ''ValueError'' ''Unknown format, attempted to normalize to address'')
      | None \<Rightarrow> Inl (raise ''ValueError'' ''Unknown format, attempted to normalize to address''))"

section \<open>Keccak-256\<close>

text \<open>
  \<open>Web3.keccak\<close> is the Keccak-256 hash function of Ethereum: the sponge construction
  over the permutation Keccak-f[1600] with a rate of 136 bytes and the original padding.
  The state is 25 lanes of 64 bits, the lane \<open>(x, y)\<close> at index \<open>x + 5 y\<close>.
\<close>

type_synonym lane = "64 word"

definition rotl64 :: "lane \<Rightarrow> nat \<Rightarrow> lane" where
  "rotl64 w r = push_bit r w OR drop_bit (64 - r) w"

definition RC :: "lane list" where
  "RC = [0x0000000000000001, 0x0000000000008082, 0x800000000000808A, 0x8000000080008000,
         0x000000000000808B, 0x0000000080000001, 0x8000000080008081, 0x8000000000008009,
         0x000000000000008A, 0x0000000000000088, 0x0000000080008009, 0x000000008000000A,
         0x000000008000808B, 0x800000000000008B, 0x8000000000008089, 0x8000000000008003,
         0x8000000000008002, 0x8000000000000080, 0x000000000000800A, 0x800000008000000A,
         0x8000000080008081, 0x8000000000008080, 0x0000000080000001, 0x8000000080008008]"

definition ROT :: "nat list" where
  "ROT = [0, 1, 62, 28, 27,  36, 44, 6, 55, 20,  3, 10, 43, 25, 39,
          41, 45, 15, 21, 8,  18, 2, 61, 56, 14]"

definition theta :: "lane list \<Rightarrow> lane list" where
  "theta a =
     (let c = map (\<lambda>x. a ! x XOR a ! (x + 5) XOR a ! (x + 10) XOR a ! (x + 15) XOR a ! (x + 20)) [0..<5];
          d = map (\<lambda>x. c ! ((x + 4) mod 5) XOR rotl64 (c ! ((x + 1) mod 5)) 1) [0..<5]
      in map (\<lambda>i. a ! i XOR d ! (i mod 5)) [0..<25])"

definition rho_pi :: "lane list \<Rightarrow> lane list" where
  "rho_pi a =
     map (\<lambda>i. let X = i mod 5; Y = i div 5; x = (X + 3 * Y) mod 5; y = X
              in rotl64 (a ! (x + 5 * y)) (ROT ! (x + 5 * y))) [0..<25]"

definition chi :: "lane list \<Rightarrow> lane list" where
  "chi b =
     map (\<lambda>i. let x = i mod 5; y = i div 5
              in b ! i XOR (NOT (b ! ((x + 1) mod 5 + 5 * y)) AND b ! ((x + 2) mod 5 + 5 * y)))
       [0..<25]"

definition iota :: "lane \<Rightarrow> lane list \<Rightarrow> lane list" where
  "iota rc a = a[0 := a ! 0 XOR rc]"

definition keccak_round :: "lane list \<Rightarrow> lane \<Rightarrow> lane list" where
  "keccak_round a rc = iota rc (chi (rho_pi (theta a)))"

definition keccak_f :: "lane list \<Rightarrow> lane list" where
  "keccak_f a = foldl keccak_round a RC"

text \<open>Lanes are read from and written to bytes in little-endian order.\<close>

definition lane_of_bytes :: "bytes \<Rightarrow> lane" where
  "lane_of_bytes bs = foldr (\<lambda>b acc. push_bit 8 acc OR ucast b) bs 0"

definition bytes_of_lane :: "lane \<Rightarrow> bytes" where
  "bytes_of_lane w = map (\<lambda>i. ucast (drop_bit (8 * i) w)) [0..<8]"

fun chunks :: "nat \<Rightarrow> 'a list \<Rightarrow> 'a list list" where
  "chunks n [] = []"
| "chunks n (x # xs) =
     (if n = 0 then [x # xs] else take n (x # xs) # chunks n (drop n (x # xs)))"

definition pad :: "bytes \<Rightarrow> bytes" where
  "pad m =
     (let q = 136 - length m mod 136
      in if q = 1 then m @ [0x81] else m @ [0x01] @ replicate (q - 2) 0 @ [0x80])"

definition absorb :: "lane list \<Rightarrow> bytes \<Rightarrow> lane list" where
  "absorb s blk = keccak_f (map2 (XOR) s (map lane_of_bytes (chunks 8 blk) @ replicate 8 0))"

definition keccak256 :: "bytes \<Rightarrow> bytes" where
  "keccak256 m =
     take 32 (concat (map bytes_of_lane (foldl absorb (replicate 25 0) (chunks 136 (pad m)))))"

text \<open>
  \<open>Web3.keccak(text=s)\<close> hashes the UTF-8 encoding of the text. The texts hashed by the
  client consist of ASCII characters, which UTF-8 encodes as one byte each.
\<close>

definition encode_utf8 :: "string \<Rightarrow> bytes" where
  "encode_utf8 s = map (\<lambda>c. of_nat (of_char c)) s"

section \<open>The client, its collaborators and transactions\<close>

text \<open>Arguments of a contract function, by ABI type.\<close>

datatype abi_val =
    AbiAddress address
  | AbiUint int
  | AbiBytes bytes
  | AbiString string
  | AbiArray "abi_val list"

text \<open>A bound contract function: the contract attribute of the client, the function, its arguments.\<close>

record contract_call =
  call_contract :: string
  call_function :: string
  call_args :: "abi_val list"

text \<open>
  The transaction that \<open>build_transaction\<close> returns: the fields of the dictionary that
  \<open>_build_tx\<close> passes in, the call it is built for with the address of its contract, and
  the chain id that \<open>build_transaction\<close> fills in.
\<close>

record tx =
  tx_call :: contract_call
  tx_to :: address
  tx_from :: address
  tx_nonce :: nat
  tx_gas :: nat
  tx_gasPrice :: nat
  tx_value :: nat
  tx_chainId :: nat

record receipt =
  status :: int

record account =
  private_key :: bytes
  account_address :: address

text \<open>
  \<open>account.sign_transaction(tx).rawTransaction\<close>: the encoding of a transaction together
  with its signature. It determines the transaction and who signed it, and the model
  keeps these two.
\<close>

datatype signed_tx = SignedTransaction bytes tx

text \<open>
  \<open>SynapseClient\<close>: the account (\<open>None\<close> without a private key) and the contract
  attributes that \<open>_init_contracts\<close> has set, by name.
\<close>

record client =
  client_account :: "account option"
  contracts :: "string \<rightharpoonup> address"

text \<open>
  The collaborators outside the repository: the node behind the RPC endpoint, the clock
  and the signing primitives of \<open>eth_account\<close>. Their answers are parameters of the model;
  every request to the node may raise instead of answering. The clock is read as
  \<open>int(time.time())\<close>: \<open>time_time E n\<close> is the value at the reading number \<open>n\<close> of an
  operation, counted from 0.
\<close>

record env =
  get_transaction_count :: "address \<Rightarrow> exc + nat"
  gas_price :: "exc + nat"
  chain_id :: "exc + nat"
  send_raw_transaction :: "signed_tx \<Rightarrow> exc + bytes"
  wait_for_transaction_receipt :: "bytes \<Rightarrow> exc + receipt"
  eth_call :: "address \<Rightarrow> contract_call \<Rightarrow> exc + abi_val list"
  time_time :: "nat \<Rightarrow> nat"
  ecdsa_sign :: "bytes \<Rightarrow> bytes \<Rightarrow> bytes"

text \<open>The requests sent to the node, in order: the network interaction of an operation.\<close>

datatype rpc =
    GetTransactionCount address
  | GasPrice
  | ChainId
  | SendRawTransaction signed_tx
  | WaitForTransactionReceipt bytes
  | EthCall address contract_call

type_synonym 'a io = "(exc + 'a) \<times> rpc list"

text \<open>Sequencing: an exception ends the operation; the requests made so far stay made.\<close>

definition and_then :: "'a io \<Rightarrow> ('a \<Rightarrow> 'b io) \<Rightarrow> 'b io" where
  "and_then m f =
     (case m of
        (Inl e, t) \<Rightarrow> (Inl e, t)
      | (Inr a, t) \<Rightarrow> (case f a of (r, t') \<Rightarrow> (r, t @ t')))"

definition local :: "exc + 'a \<Rightarrow> 'a io" where
  "local r = (r, [])"

text \<open>A request to the node with its answer: the request is made whether it succeeds or raises.\<close>

definition request :: "exc + 'a \<Rightarrow> rpc \<Rightarrow> 'a io" where
  "request r q = (r, [q])"

text \<open>The property \<open>SynapseClient.address\<close>.\<close>

definition client_address :: "client \<Rightarrow> exc + address" where
  "client_address c =
     (case client_account c of
        None \<Rightarrow> Inl (raise ''SynapseError'' ''No account connected'')
      | Some a \<Rightarrow> Inr (account_address a))"

text \<open>
  Reading a contract attribute such as \<open>self.reputation\<close>: \<open>AttributeError\<close> when
  \<open>_init_contracts\<close> did not set it.
\<close>

definition contract_attr :: "client \<Rightarrow> string \<Rightarrow> exc + address" where
  "contract_attr c name =
     (case contracts c name of
        None \<Rightarrow> Inl (raise ''AttributeError'' name)
      | Some a \<Rightarrow> Inr a)"

text \<open>
  \<open>_build_tx\<close>: the dictionary is evaluated left to right, so the account is read first
  (\<open>self.address\<close>, twice), then the transaction count and the gas price are requested
  from the node; either request may raise. \<open>func.build_transaction\<close> then fills in what
  the dictionary leaves open: with \<open>gas\<close>, \<open>gasPrice\<close> and \<open>value\<close> given, that is the
  chain id, which it requests from the node.
\<close>

definition build_tx :: "env \<Rightarrow> client \<Rightarrow> address \<Rightarrow> contract_call \<Rightarrow> tx io" where
  "build_tx E c target func =
     and_then (local (client_address c)) (\<lambda>a.
     and_then (local (client_address c)) (\<lambda>a'.
     and_then (request (get_transaction_count E a') (GetTransactionCount a')) (\<lambda>n.
     and_then (request (gas_price E) GasPrice) (\<lambda>g.
     and_then (request (chain_id E) ChainId) (\<lambda>cid.
       local (Inr \<lparr>tx_call = func, tx_to = target, tx_from = a, tx_nonce = n, tx_gas = 500000,
                    tx_gasPrice = g, tx_value = 0, tx_chainId = cid\<rparr>))))))"

text \<open>
  \<open>_send_tx\<close>: sign, submit, wait for the receipt, raise on a status other than 1,
  otherwise return the transaction hash as text. The \<open>raise\<close> gives
  \<open>TransactionFailedError\<close> one argument, the message.
\<close>

definition send_tx :: "env \<Rightarrow> client \<Rightarrow> tx \<Rightarrow> string io" where
  "send_tx E c t =
     (case client_account c of
        None \<Rightarrow> (Inl (raise ''AttributeError'' ''sign_transaction''), [])
      | Some a \<Rightarrow>
          (let raw = SignedTransaction (private_key a) t in
           case send_raw_transaction E raw of
             Inl e \<Rightarrow> (Inl e, [SendRawTransaction raw])
           | Inr tx_hash \<Rightarrow>
               (case wait_for_transaction_receipt E tx_hash of
                  Inl e \<Rightarrow> (Inl e, [SendRawTransaction raw, WaitForTransactionReceipt tx_hash])
                | Inr r \<Rightarrow>
                    if status r \<noteq> 1
                    then (Inl (TransactionFailedError
                                 (''Transaction failed: '' @ HexBytes_hex tx_hash) None),
                          [SendRawTransaction raw, WaitForTransactionReceipt tx_hash])
                    else (Inr (HexBytes_hex tx_hash),
                          [SendRawTransaction raw, WaitForTransactionReceipt tx_hash]))))"

text \<open>The tail shared by the write operations: \<open>tx = self._build_tx(func)\<close>, then \<open>self._send_tx(tx)\<close>.\<close>

definition transact :: "env \<Rightarrow> client \<Rightarrow> address \<Rightarrow> contract_call \<Rightarrow> string io" where
  "transact E c target func = and_then (build_tx E c target func) (send_tx E c)"

text \<open>\<open>rate_service\<close>\<close>

definition rate_service :: "env \<Rightarrow> client \<Rightarrow> string \<Rightarrow> string \<Rightarrow> int \<Rightarrow> string io" where
  "rate_service E c provider category rating =
     (if \<not> (1 \<le> rating \<and> rating \<le> 5)
      then (Inl (raise ''ValueError'' ''Rating must be between 1 and 5''), [])
      else
        and_then (local (contract_attr c ''reputation'')) (\<lambda>target.
        and_then (local (to_checksum_address provider)) (\<lambda>p.
          transact E c target
            \<lparr>call_contract = ''reputation'', call_function = ''rateService'',
             call_args = [AbiAddress p, AbiString category, AbiUint rating]\<rparr>)))"

section \<open>A concrete client and node, for evaluating the operations\<close>

definition example_account :: account where
  "example_account =
     \<lparr>private_key = replicate 32 0x11,
      account_address = 0x00000000000000000000000000000000000000a1\<rparr>"

definition example_client :: client where
  "example_client =
     \<lparr>client_account = Some example_account,
      contracts = [''token'' \<mapsto> 0xc0, ''payment_router'' \<mapsto> 0xc1, ''reputation'' \<mapsto> 0xc2,
                   ''service_registry'' \<mapsto> 0xc3, ''payment_channel'' \<mapsto> 0xc4]\<rparr>"

text \<open>
  A node of chain 421614 that accepts every transaction under the hash \<open>ab\<dots>ab\<close> and
  reports the given receipt status; the clock stands at 1700000000.
\<close>

definition example_env :: "int \<Rightarrow> env" where
  "example_env st =
     \<lparr>get_transaction_count = (\<lambda>_. Inr 7),
      gas_price = Inr 100,
      chain_id = Inr 421614,
      send_raw_transaction = (\<lambda>raw. Inr (replicate 32 0xab)),
      wait_for_transaction_receipt = (\<lambda>h. Inr \<lparr>status = st\<rparr>),
      eth_call = (\<lambda>target f. Inr []),
      time_time = (\<lambda>_. 1700000000),
      ecdsa_sign = (\<lambda>key digest. key @ digest)\<rparr>"

definition example_call :: contract_call where
  "example_call =
     \<lparr>call_contract = ''reputation'', call_function = ''rateService'',
      call_args = [AbiAddress 0xb2, AbiString ''vision'', AbiUint 5]\<rparr>"

definition example_tx :: tx where
  "example_tx =
     \<lparr>tx_call = example_call, tx_to = 0xc2, tx_from = 0xa1, tx_nonce = 7,
      tx_gas = 500000, tx_gasPrice = 100, tx_value = 0, tx_chainId = 421614\<rparr>"

section \<open>Decimal numbers of Python's \<open>decimal\<close> module\<close>

text \<open>
  A finite \<open>Decimal\<close> is a sign, a coefficient and an exponent, with value
  \<open>(-1)^sign * coefficient * 10^exponent\<close>. The special values (infinities and NaNs) are
  not amounts and are left out, and so are the exponent limits of the arithmetic context
  (\<open>Emax = 999999\<close>), which no amount with a plain digit string reaches.
\<close>

record decimal =
  dec_sign :: bool
  dec_int :: nat
  dec_exp :: int

definition dec_of_int :: "int \<Rightarrow> decimal" where
  "dec_of_int k = \<lparr>dec_sign = (k < 0), dec_int = nat \<bar>k\<bar>, dec_exp = 0\<rparr>"

definition digit_char :: "nat \<Rightarrow> char" where
  "digit_char n = ''0123456789'' ! (n mod 10)"

definition is_digit :: "char \<Rightarrow> bool" where
  "is_digit c = (48 \<le> (of_char c :: nat) \<and> (of_char c :: nat) \<le> 57)"

definition digit_val :: "char \<Rightarrow> nat" where
  "digit_val c = of_char c - 48"

text \<open>\<open>str(n)\<close> for a natural number, and \<open>int(s)\<close> for a string of digits.\<close>

fun digits_of :: "nat \<Rightarrow> string" where
  "digits_of n = (if n < 10 then [digit_char n] else digits_of (n div 10) @ [digit_char n])"

definition int_of_digits :: "string \<Rightarrow> nat" where
  "int_of_digits s = foldl (\<lambda>a c. 10 * a + digit_val c) 0 s"

definition numdigits :: "nat \<Rightarrow> nat" where
  "numdigits c = length (digits_of c)"

text \<open>The format \<open>"%+d"\<close>.\<close>

definition signed_str :: "int \<Rightarrow> string" where
  "signed_str k = (if k < 0 then ''-'' else ''+'') @ digits_of (nat \<bar>k\<bar>)"

text \<open>\<open>Decimal.__str__\<close>: plain notation for small exponents, scientific notation otherwise.\<close>

definition dec_str :: "decimal \<Rightarrow> string" where
  "dec_str d =
     (let sign = (if dec_sign d then ''-'' else '''');
          ds = digits_of (dec_int d);
          n = int (length ds);
          leftdigits = dec_exp d + n;
          dotplace = (if dec_exp d \<le> 0 \<and> leftdigits > -6 then leftdigits else 1);
          intpart = (if dotplace \<le> 0 then ''0''
                     else if dotplace \<ge> n then ds @ replicate (nat (dotplace - n)) CHR ''0''
                     else take (nat dotplace) ds);
          fracpart = (if dotplace \<le> 0 then ''.'' @ replicate (nat (- dotplace)) CHR ''0'' @ ds
                      else if dotplace \<ge> n then ''''
                      else ''.'' @ drop (nat dotplace) ds);
          exp = (if leftdigits = dotplace then '''' else ''E'' @ signed_str (leftdigits - dotplace))
      in sign @ intpart @ fracpart @ exp)"

text \<open>
  \<open>Decimal(s)\<close> for a string: an optional sign, digits with an optional point (at least one
  digit), an optional exponent; other strings raise \<open>InvalidOperation\<close>. Python also
  accepts white space around the number, underscores between digits and the names of the
  special values; the model takes none of these for a number and rejects them.
\<close>

definition parse_exponent :: "string \<Rightarrow> int option" where
  "parse_exponent r =
     (case r of
        [] \<Rightarrow> Some 0
      | c # r' \<Rightarrow>
          if c = CHR ''e'' \<or> c = CHR ''E'' then
            (let neg = (case r' of s # _ \<Rightarrow> s = CHR ''-'' | [] \<Rightarrow> False);
                 ds = (case r' of s # t \<Rightarrow> if s = CHR ''-'' \<or> s = CHR ''+'' then t else r' | [] \<Rightarrow> [])
             in if ds \<noteq> [] \<and> list_all is_digit ds
                then Some (if neg then - int (int_of_digits ds) else int (int_of_digits ds))
                else None)
          else None)"

definition Decimal_of_str :: "string \<Rightarrow> exc + decimal" where
  "Decimal_of_str s =
     (let neg = (case s of c # _ \<Rightarrow> c = CHR ''-'' | [] \<Rightarrow> False);
          r = (case s of c # t \<Rightarrow> if c = CHR ''-'' \<or> c = CHR ''+'' then t else s | [] \<Rightarrow> []);
          intpart = takeWhile is_digit r;
          r1 = dropWhile is_digit r;
          has_point = (case r1 of c # _ \<Rightarrow> c = CHR ''.'' | [] \<Rightarrow> False);
          fracpart = (if has_point then takeWhile is_digit (tl r1) else []);
          r2 = (if has_point then dropWhile is_digit (tl r1) else r1)
      in if intpart = [] \<and> fracpart = [] then Inl (raise ''InvalidOperation'' ''ConversionSyntax'')
         else case parse_exponent r2 of
                None \<Rightarrow> Inl (raise ''InvalidOperation'' ''ConversionSyntax'')
              | Some e \<Rightarrow> Inr \<lparr>dec_sign = neg, dec_int = int_of_digits (intpart @ fracpart),
                              dec_exp = e - int (length fracpart)\<rparr>)"

text \<open>
  Rounding to the precision of the context (\<open>Decimal._fix\<close>, rounding mode
  \<open>ROUND_HALF_EVEN\<close>): a coefficient with more digits than the precision loses its last
  digits.
\<close>

definition dec_fix :: "nat \<Rightarrow> decimal \<Rightarrow> decimal" where
  "dec_fix prec d =
     (if numdigits (dec_int d) \<le> prec then d
      else
        (let k = numdigits (dec_int d) - prec;
             q = dec_int d div 10 ^ k;
             r = dec_int d mod 10 ^ k;
             q' = (if 2 * r > 10 ^ k \<or> (2 * r = 10 ^ k \<and> odd q) then q + 1 else q)
         in if numdigits q' > prec
            then d\<lparr>dec_int := q' div 10, dec_exp := dec_exp d + int k + 1\<rparr>
            else d\<lparr>dec_int := q', dec_exp := dec_exp d + int k\<rparr>))"

text \<open>Multiplication in a context of the given precision.\<close>

definition dec_mul :: "nat \<Rightarrow> decimal \<Rightarrow> decimal \<Rightarrow> decimal" where
  "dec_mul prec a b =
     dec_fix prec \<lparr>dec_sign = (dec_sign a \<noteq> dec_sign b), dec_int = dec_int a * dec_int b,
                   dec_exp = dec_exp a + dec_exp b\<rparr>"

text \<open>
  The loop of \<open>Decimal.__truediv__\<close> that brings an exact quotient as close to the ideal
  exponent as its trailing zeros allow.
\<close>

function strip_zeros :: "nat \<Rightarrow> int \<Rightarrow> int \<Rightarrow> nat \<times> int" where
  "strip_zeros coeff exp ideal_exp =
     (if exp < ideal_exp \<and> coeff mod 10 = 0
      then strip_zeros (coeff div 10) (exp + 1) ideal_exp
      else (coeff, exp))"
  by pat_completeness auto
termination
  by (relation "measure (\<lambda>(coeff, exp, ideal_exp). nat (ideal_exp - exp))") auto

text \<open>Division in a context of the given precision (\<open>Decimal.__truediv__\<close>).\<close>

definition dec_div :: "nat \<Rightarrow> decimal \<Rightarrow> decimal \<Rightarrow> exc + decimal" where
  "dec_div prec a b =
     (if dec_int b = 0 then Inl (raise ''DivisionByZero'' ''x / 0'')
      else if dec_int a = 0
      then Inr (dec_fix prec \<lparr>dec_sign = (dec_sign a \<noteq> dec_sign b), dec_int = 0,
                               dec_exp = dec_exp a - dec_exp b\<rparr>)
      else
        (let shift = int (numdigits (dec_int b)) - int (numdigits (dec_int a)) + int prec + 1;
             exp = dec_exp a - dec_exp b - shift;
             x = (if shift \<ge> 0 then dec_int a * 10 ^ nat shift else dec_int a);
             y = (if shift \<ge> 0 then dec_int b else dec_int b * 10 ^ nat (- shift));
             coeff = x div y;
             remainder = x mod y;
             ce = (if remainder \<noteq> 0
                   then (if coeff mod 5 = 0 then coeff + 1 else coeff, exp)
                   else strip_zeros coeff exp (dec_exp a - dec_exp b))
         in Inr (dec_fix prec \<lparr>dec_sign = (dec_sign a \<noteq> dec_sign b), dec_int = fst ce,
                                dec_exp = snd ce\<rparr>)))"

text \<open>Comparison of a decimal with an integer, by value.\<close>

definition dec_signed :: "decimal \<Rightarrow> int" where
  "dec_signed d = (if dec_sign d then - int (dec_int d) else int (dec_int d))"

definition dec_less_int :: "decimal \<Rightarrow> int \<Rightarrow> bool" where
  "dec_less_int d k =
     (if dec_exp d \<ge> 0 then dec_signed d * 10 ^ nat (dec_exp d) < k
      else dec_signed d < k * 10 ^ nat (- dec_exp d))"

definition dec_greater_int :: "decimal \<Rightarrow> int \<Rightarrow> bool" where
  "dec_greater_int d k =
     (if dec_exp d \<ge> 0 then dec_signed d * 10 ^ nat (dec_exp d) > k
      else dec_signed d > k * 10 ^ nat (- dec_exp d))"


text \<open>\<open>int(d)\<close> truncates towards zero.\<close>

definition dec_to_int :: "decimal \<Rightarrow> int" where
  "dec_to_int d =
     (if dec_exp d \<ge> 0 then dec_signed d * 10 ^ nat (dec_exp d)
      else (if dec_sign d then - int (dec_int d div 10 ^ nat (- dec_exp d))
            else int (dec_int d div 10 ^ nat (- dec_exp d))))"

section \<open>Unit conversion\<close>

definition MIN_WEI :: int where "MIN_WEI = 0"
definition MAX_WEI :: int where "MAX_WEI = 2 ^ 256 - 1"

text \<open>\<open>units['ether']\<close>\<close>

definition ether :: decimal where
  "ether = \<lparr>dec_sign = False, dec_int = 1000000000000000000, dec_exp = 0\<rparr>"

text \<open>
  \<open>Web3.to_wei(number, 'ether')\<close> for a \<open>Decimal\<close> argument, as \<open>eth_utils.currency\<close>
  computes it: a number below one whose text has a point is first scaled to an integer in
  a context whose precision is the number of characters after the point, and the unit is
  divided by the same power of ten in the default context (precision 28); the product is
  taken in a context of precision 999, checked against the range and truncated by \<open>int\<close>.
  Setting a precision of 0 raises \<open>ValueError\<close>.
\<close>

definition Web3_to_wei :: "decimal \<Rightarrow> exc + int" where
  "Web3_to_wei number =
     (let s_number = dec_str number in
      if dec_int number = 0 then Inr 0
      else
        case (if dec_less_int number 1 \<and> CHR ''.'' \<in> set s_number
              then
                (let multiplier = length s_number - length (takeWhile (\<lambda>c. c \<noteq> CHR ''.'') s_number) - 1
                 in if multiplier = 0
                    then Inl (raise ''ValueError'' ''valid range for prec is [1, MAX_PREC]'')
                    else case dec_div 28 ether (dec_of_int (10 ^ multiplier)) of
                           Inl e \<Rightarrow> Inl e
                         | Inr unit_value \<Rightarrow>
                             Inr (dec_mul multiplier number (dec_of_int (10 ^ multiplier)), unit_value))
              else Inr (number, ether)) of
          Inl e \<Rightarrow> Inl e
        | Inr (d_number, unit_value) \<Rightarrow>
            (let result_value = dec_mul 999 d_number unit_value
             in if dec_less_int result_value MIN_WEI \<or> dec_greater_int result_value MAX_WEI
                then Inl (raise ''ValueError'' ''Resulting wei value must be between 1 and 2**256 - 1'')
                else Inr (dec_to_int result_value)))"

text \<open>\<open>SynapseClient._to_wei\<close> for an amount given as a string.\<close>

definition to_wei :: "string \<Rightarrow> exc + int" where
  "to_wei amount =
     (case Decimal_of_str amount of Inl e \<Rightarrow> Inl e | Inr d \<Rightarrow> Web3_to_wei d)"

text \<open>
  \<open>Web3.from_wei(number, 'ether')\<close>: the integer 0 for 0, otherwise the quotient by the
  unit in a context of precision 999. The value returned is given by its text, which is
  what \<open>_from_wei\<close> reads.
\<close>

definition Web3_from_wei :: "int \<Rightarrow> exc + string" where
  "Web3_from_wei number =
     (if number = 0 then Inr ''0''
      else if number < MIN_WEI \<or> number > MAX_WEI
      then Inl (raise ''ValueError'' ''value must be between 1 and 2**256 - 1'')
      else case dec_div 999 (dec_of_int number) ether of
             Inl e \<Rightarrow> Inl e
           | Inr result_value \<Rightarrow> Inr (dec_str result_value))"

text \<open>\<open>SynapseClient._from_wei\<close>\<close>

definition from_wei :: "int \<Rightarrow> exc + decimal" where
  "from_wei amount =
     (case Web3_from_wei amount of Inl e \<Rightarrow> Inl e | Inr s \<Rightarrow> Decimal_of_str s)"

text \<open>
  The last step of \<open>Web3.to_wei\<close>, named for the proofs: the range check on the product and
  the truncation by \<open>int\<close>.
\<close>

definition wei_of_result :: "decimal \<Rightarrow> exc + int" where
  "wei_of_result result_value =
     (if dec_less_int result_value MIN_WEI \<or> dec_greater_int result_value MAX_WEI
      then Inl (raise ''ValueError'' ''Resulting wei value must be between 1 and 2**256 - 1'')
      else Inr (dec_to_int result_value))"

section \<open>Payments\<close>

text \<open>
  The contract functions check their arguments against the ABI when they are called with
  them: a value for \<open>bytes32\<close> must be exactly 32 bytes (web3 checks byte strings strictly
  by default), otherwise no function of the ABI matches and \<open>Web3ValidationError\<close> is
  raised.
\<close>

definition abi_bytes32 :: "bytes \<Rightarrow> exc + bytes" where
  "abi_bytes32 b =
     (if length b = 32 then Inr b
      else Inl (raise ''Web3ValidationError'' ''Could not identify the intended function''))"

text \<open>A list comprehension over a function that may raise: the first exception ends it.\<close>

fun map_exc :: "('a \<Rightarrow> exc + 'b) \<Rightarrow> 'a list \<Rightarrow> exc + 'b list" where
  "map_exc f [] = Inr []"
| "map_exc f (x # xs) =
     (case f x of
        Inl e \<Rightarrow> Inl e
      | Inr y \<Rightarrow> (case map_exc f xs of Inl e \<Rightarrow> Inl e | Inr ys \<Rightarrow> Inr (y # ys)))"

text \<open>The dictionary that \<open>pay\<close> returns.\<close>

record pay_result =
  result_tx_hash :: string
  result_payment_id :: string

text \<open>
  \<open>pay\<close>. The payment id is an optional argument; when it is \<open>None\<close> it is set to
  \<open>Web3.keccak(text=f"pay-{int(time.time())}")\<close>. A payment id made by \<open>Web3.keccak\<close>
  is a \<open>HexBytes\<close>, whose \<open>hex()\<close> has the prefix \<open>0x\<close>; one given by the caller is
  \<open>bytes\<close>, whose \<open>hex()\<close> has none.
\<close>

definition pay ::
  "env \<Rightarrow> client \<Rightarrow> string \<Rightarrow> string \<Rightarrow> bytes option \<Rightarrow> bytes \<Rightarrow> pay_result io" where
  "pay E c recipient amount payment_id metadata =
     (let pid = (case payment_id of
                   None \<Rightarrow> keccak256 (encode_utf8 (''pay-'' @ digits_of (time_time E 0)))
                 | Some b \<Rightarrow> b)
      in
        and_then (local (contract_attr c ''payment_router'')) (\<lambda>target.
        and_then (local (to_checksum_address recipient)) (\<lambda>r.
        and_then (local (to_wei amount)) (\<lambda>w.
        and_then (local (abi_bytes32 pid)) (\<lambda>p.
        and_then (transact E c target
                    \<lparr>call_contract = ''payment_router'', call_function = ''pay'',
                     call_args = [AbiAddress r, AbiUint w, AbiBytes p, AbiBytes metadata]\<rparr>) (\<lambda>h.
          local (Inr \<lparr>result_tx_hash = h,
                       result_payment_id = (case payment_id of
                                              None \<Rightarrow> HexBytes_hex pid
                                            | Some b \<Rightarrow> bytes_hex b)\<rparr>)))))))"

text \<open>
  \<open>batch_pay\<close>. A payment is a dictionary with the keys \<open>recipient\<close> and \<open>amount\<close>, here
  a pair. The three lists are computed one after the other, then the contract is looked
  up. The payment id of the entry \<open>i\<close> is
  \<open>Web3.keccak(text=f"batch-{int(time.time())}-{i}")\<close>, the clock being read for every
  entry.
\<close>

definition batch_pay :: "env \<Rightarrow> client \<Rightarrow> (string \<times> string) list \<Rightarrow> string io" where
  "batch_pay E c payments =
     and_then (local (map_exc to_checksum_address (map fst payments))) (\<lambda>recipients.
     and_then (local (map_exc to_wei (map snd payments))) (\<lambda>amounts.
       (let payment_ids =
              map (\<lambda>i. keccak256 (encode_utf8
                           (''batch-'' @ digits_of (time_time E i) @ ''-'' @ digits_of i)))
                [0..<length payments]
        in
          and_then (local (contract_attr c ''payment_router'')) (\<lambda>target.
            transact E c target
              \<lparr>call_contract = ''payment_router'', call_function = ''batchPay'',
               call_args = [AbiArray (map AbiAddress recipients), AbiArray (map AbiUint amounts),
                            AbiArray (map AbiBytes payment_ids), AbiArray []]\<rparr>))))"

section \<open>Reverse lookup of enumeration names\<close>

lemma reverse_lookup_Tier:
  "reverse_lookup Tier_dict =
     [PyInt 0 \<mapsto> ''UNVERIFIED'', PyInt 1 \<mapsto> ''BRONZE'', PyInt 2 \<mapsto> ''SILVER'',
      PyInt 3 \<mapsto> ''GOLD'', PyInt 4 \<mapsto> ''PLATINUM'', PyInt 5 \<mapsto> ''DIAMOND'',
      PyClassMethod ''get_name'' \<mapsto> ''get_name'',
      PyClassMethod ''get_discount'' \<mapsto> ''get_discount'']"
  by (simp add: reverse_lookup_def Tier_dict_def startswith_underscore_def)

lemma reverse_lookup_PricingModel:
  "reverse_lookup PricingModel_dict =
     [PyInt 0 \<mapsto> ''PER_REQUEST'', PyInt 1 \<mapsto> ''PER_TOKEN'', PyInt 2 \<mapsto> ''PER_SECOND'',
      PyInt 3 \<mapsto> ''PER_BYTE'', PyInt 4 \<mapsto> ''SUBSCRIPTION'', PyInt 5 \<mapsto> ''CUSTOM'',
      PyClassMethod ''get_name'' \<mapsto> ''get_name'']"
  by (simp add: reverse_lookup_def PricingModel_dict_def startswith_underscore_def)

text \<open>
  Claim C10. For every integer \<open>v\<close>, the name that \<open>get_agent\<close> and \<open>get_service\<close> obtain
  from the reverse-lookup dictionary built by reflection over the class attributes
  equals the name returned by the static mappings \<open>Tier.get_name\<close> and
  \<open>PricingModel.get_name\<close>.
\<close>

theorem reflective_names_agree_with_get_name:
  "get_agent_tier_name v = Tier_get_name v \<and>
   get_service_pricing_model_name v = PricingModel_get_name v"
  by (simp add: get_agent_tier_name_def get_service_pricing_model_name_def
      Tier_get_name_def PricingModel_get_name_def get_or_unknown_def
      reverse_lookup_Tier reverse_lookup_PricingModel)

section \<open>Sequencing\<close>

lemma and_then_Inl [simp]: "and_then (Inl e, t) f = (Inl e, t)"
  by (simp add: and_then_def)

lemma and_then_Inr [simp]: "and_then (Inr a, t) f = (fst (f a), t @ snd (f a))"
  by (simp add: and_then_def split: prod.splits)

lemma and_then_local_Inr [simp]: "and_then (local (Inr a)) f = f a"
  by (simp add: local_def)

lemma and_then_local_Inl [simp]: "and_then (local (Inl e)) f = (Inl e, [])"
  by (simp add: local_def)

lemma and_then_assoc: "and_then (and_then m f) g = and_then m (\<lambda>a. and_then (f a) g)"
  by (cases m; cases "fst m") (auto simp: and_then_def split: prod.splits sum.splits)

lemma and_then_request_Inr [simp]:
  "and_then (request (Inr a) q) f = (fst (f a), q # snd (f a))"
  by (simp add: request_def)

lemma and_then_request_Inl [simp]: "and_then (request (Inl e) q) f = (Inl e, [q])"
  by (simp add: request_def)

lemma and_then_returns:
  "and_then m f = (Inr b, tr) \<Longrightarrow>
     \<exists>a t t'. m = (Inr a, t) \<and> f a = (Inr b, t') \<and> tr = t @ t'"
  by (cases m; cases "fst m") (auto simp: and_then_def split: prod.splits)

section \<open>Rating validation\<close>

text \<open>
  Claim C7, as the claim states it, fails: a rating of 6 is rejected before any request
  to the node, but the exception is Python's built-in \<open>ValueError\<close>, which is not an
  \<open>InvalidInputError\<close> (the package defines no class of that name, and \<open>ValueError\<close>
  is not even a \<open>SynapseError\<close>).
\<close>

theorem rate_service_6_not_InvalidInputError:
  "fst (rate_service (example_env 1) example_client
          ''0x00000000000000000000000000000000000000b2'' ''vision'' 6)
     = Inl (raise ''ValueError'' ''Rating must be between 1 and 5'')
   \<and> \<not> isinstance_exc (raise ''ValueError'' ''Rating must be between 1 and 5'') ''InvalidInputError''
   \<and> \<not> isinstance_exc (raise ''ValueError'' ''Rating must be between 1 and 5'') ''SynapseError''"
  by (simp add: rate_service_def isinstance_exc_def class_mro_def raise_def sdk_exceptions_def)

text \<open>What \<open>_build_tx\<close> does, with the account read once.\<close>

lemma build_tx_steps:
  "build_tx E c target func =
     and_then (local (client_address c)) (\<lambda>a.
     and_then (request (get_transaction_count E a) (GetTransactionCount a)) (\<lambda>n.
     and_then (request (gas_price E) GasPrice) (\<lambda>g.
     and_then (request (chain_id E) ChainId) (\<lambda>cid.
       local (Inr \<lparr>tx_call = func, tx_to = target, tx_from = a, tx_nonce = n, tx_gas = 500000,
                    tx_gasPrice = g, tx_value = 0, tx_chainId = cid\<rparr>)))))"
  unfolding build_tx_def by (cases "client_address c") simp_all

lemma to_checksum_address_error:
  "to_checksum_address s = Inl e \<Longrightarrow>
     e = raise ''ValueError'' ''Unknown format, attempted to normalize to address''"
  by (auto simp: to_checksum_address_def split: option.splits if_splits)

text \<open>
  Claim C7, amended. For every rating outside the closed range [1,5], \<open>rate_service\<close>
  raises \<open>ValueError\<close> with the message of the source and without any request to the
  node. For every rating inside the range the validation passes and the call proceeds:
  the outcome is not that error, and the operation goes on, in this order, to read the
  reputation contract, to normalise the provider address, to read the account, to request
  the transaction count, the gas price and the chain id from the node, and to sign and
  send the transaction that calls \<open>rateService(provider, category, rating)\<close> on the
  reputation contract; the first of these steps that raises ends the operation.
\<close>

theorem rate_service_rating_check:
  "(\<not> (1 \<le> rating \<and> rating \<le> 5) \<longrightarrow>
      rate_service E c provider category rating
        = (Inl (raise ''ValueError'' ''Rating must be between 1 and 5''), []))
   \<and> (1 \<le> rating \<and> rating \<le> 5 \<longrightarrow>
      rate_service E c provider category rating
        \<noteq> (Inl (raise ''ValueError'' ''Rating must be between 1 and 5''), [])
      \<and> rate_service E c provider category rating
        = and_then (local (contract_attr c ''reputation'')) (\<lambda>target.
          and_then (local (to_checksum_address provider)) (\<lambda>p.
          and_then (local (client_address c)) (\<lambda>a.
          and_then (request (get_transaction_count E a) (GetTransactionCount a)) (\<lambda>n.
          and_then (request (gas_price E) GasPrice) (\<lambda>g.
          and_then (request (chain_id E) ChainId) (\<lambda>cid.
            send_tx E c
              \<lparr>tx_call = \<lparr>call_contract = ''reputation'', call_function = ''rateService'',
                          call_args = [AbiAddress p, AbiString category, AbiUint rating]\<rparr>,
               tx_to = target, tx_from = a, tx_nonce = n, tx_gas = 500000,
               tx_gasPrice = g, tx_value = 0, tx_chainId = cid\<rparr>)))))))"
proof (intro conjI impI)
  assume "\<not> (1 \<le> rating \<and> rating \<le> 5)"
  then show "rate_service E c provider category rating
        = (Inl (raise ''ValueError'' ''Rating must be between 1 and 5''), [])"
    by (simp add: rate_service_def)
next
  assume r: "1 \<le> rating \<and> rating \<le> 5"
  let ?call = "\<lambda>p. \<lparr>call_contract = ''reputation'', call_function = ''rateService'',
                     call_args = [AbiAddress p, AbiString category, AbiUint rating]\<rparr>"
  have eq: "rate_service E c provider category rating
        = and_then (local (contract_attr c ''reputation'')) (\<lambda>target.
          and_then (local (to_checksum_address provider)) (\<lambda>p.
            transact E c target (?call p)))"
    using r by (simp add: rate_service_def)
  show "rate_service E c provider category rating
        \<noteq> (Inl (raise ''ValueError'' ''Rating must be between 1 and 5''), [])"
  proof (cases "contract_attr c ''reputation''")
    case (Inl e)
    then have "e = raise ''AttributeError'' ''reputation''"
      by (auto simp: contract_attr_def split: option.splits)
    with Inl show ?thesis unfolding eq by (simp add: raise_def)
  next
    case target: (Inr target)
    show ?thesis
    proof (cases "to_checksum_address provider")
      case (Inl e)
      from to_checksum_address_error [OF this] Inl target show ?thesis
        unfolding eq by (simp add: raise_def)
    next
      case p: (Inr p)
      show ?thesis
      proof (cases "client_address c")
        case (Inl e)
        then have "e = raise ''SynapseError'' ''No account connected''"
          by (auto simp: client_address_def split: option.splits)
        with Inl target p show ?thesis
          unfolding eq transact_def build_tx_steps and_then_assoc by (simp add: raise_def)
      next
        case (Inr a)
        have "snd (rate_service E c provider category rating) \<noteq> []"
          unfolding eq transact_def build_tx_steps and_then_assoc
          using target p Inr
          by (cases "get_transaction_count E a") simp_all
        then show ?thesis by auto
      qed
    qed
  qed
  show "rate_service E c provider category rating
        = and_then (local (contract_attr c ''reputation'')) (\<lambda>target.
          and_then (local (to_checksum_address provider)) (\<lambda>p.
          and_then (local (client_address c)) (\<lambda>a.
          and_then (request (get_transaction_count E a) (GetTransactionCount a)) (\<lambda>n.
          and_then (request (gas_price E) GasPrice) (\<lambda>g.
          and_then (request (chain_id E) ChainId) (\<lambda>cid.
            send_tx E c
              \<lparr>tx_call = ?call p,
               tx_to = target, tx_from = a, tx_nonce = n, tx_gas = 500000,
               tx_gasPrice = g, tx_value = 0, tx_chainId = cid\<rparr>))))))"
    unfolding eq transact_def build_tx_steps and_then_assoc
    by (simp add: and_then_local_Inr [of _ "send_tx E c"])
qed

lemma example_provider:
  "to_checksum_address ''0x00000000000000000000000000000000000000b2'' = Inr 0xb2"
  by (simp add: to_checksum_address_def strip_0x_def hex_value_def be_nat_def)

lemma hex_of_byte_ab: "hex_of_byte 0xab = ''ab''"
  by (simp add: hex_of_byte_def hex_digit_def)

lemma example_hash_hex:
  "HexBytes_hex (replicate 32 0xab) = ''0xabababababababababababababababababababababababababababababababab''"
  by (simp add: HexBytes_hex_def bytes_hex_def hex_of_byte_ab eval_nat_numeral)

theorem rate_service_rating_check_witness:
  "rate_service (example_env 1) example_client
      ''0x00000000000000000000000000000000000000b2'' ''vision'' 6
     = (Inl (raise ''ValueError'' ''Rating must be between 1 and 5''), [])
   \<and> rate_service (example_env 1) example_client
      ''0x00000000000000000000000000000000000000b2'' ''vision'' 5
     = (Inr ''0xabababababababababababababababababababababababababababababababab'',
        [GetTransactionCount 0xa1, GasPrice, ChainId,
         SendRawTransaction (SignedTransaction (replicate 32 0x11)
           \<lparr>tx_call = \<lparr>call_contract = ''reputation'', call_function = ''rateService'',
                       call_args = [AbiAddress 0xb2, AbiString ''vision'', AbiUint 5]\<rparr>,
            tx_to = 0xc2, tx_from = 0xa1, tx_nonce = 7, tx_gas = 500000,
            tx_gasPrice = 100, tx_value = 0, tx_chainId = 421614\<rparr>),
         WaitForTransactionReceipt (replicate 32 0xab)])
   \<and> rate_service (example_env 1) (example_client\<lparr>client_account := None\<rparr>)
      ''0x00000000000000000000000000000000000000b2'' ''vision'' 5
     = (Inl (raise ''SynapseError'' ''No account connected''), [])"
proof -
  note main = rate_service_rating_check [where E = "example_env 1"
      and provider = "''0x00000000000000000000000000000000000000b2''" and category = "''vision''"]
  have a: "rate_service (example_env 1) example_client
      ''0x00000000000000000000000000000000000000b2'' ''vision'' 6
     = (Inl (raise ''ValueError'' ''Rating must be between 1 and 5''), [])"
    using main [where c = example_client and rating = 6] by simp
  have b: "rate_service (example_env 1) example_client
      ''0x00000000000000000000000000000000000000b2'' ''vision'' 5
     = (Inr ''0xabababababababababababababababababababababababababababababababab'',
        [GetTransactionCount 0xa1, GasPrice, ChainId,
         SendRawTransaction (SignedTransaction (replicate 32 0x11)
           \<lparr>tx_call = \<lparr>call_contract = ''reputation'', call_function = ''rateService'',
                       call_args = [AbiAddress 0xb2, AbiString ''vision'', AbiUint 5]\<rparr>,
            tx_to = 0xc2, tx_from = 0xa1, tx_nonce = 7, tx_gas = 500000,
            tx_gasPrice = 100, tx_value = 0, tx_chainId = 421614\<rparr>),
         WaitForTransactionReceipt (replicate 32 0xab)])"
    using main [where c = example_client and rating = 5] example_provider
    by (simp add: example_client_def example_env_def example_account_def contract_attr_def
        client_address_def send_tx_def example_hash_hex)
  have c: "rate_service (example_env 1) (example_client\<lparr>client_account := None\<rparr>)
      ''0x00000000000000000000000000000000000000b2'' ''vision'' 5
     = (Inl (raise ''SynapseError'' ''No account connected''), [])"
    using main [where c = "example_client\<lparr>client_account := None\<rparr>" and rating = 5]
      example_provider
    by (simp add: example_client_def contract_attr_def client_address_def)
  from a b c show ?thesis by simp
qed

section \<open>Waiting for the receipt\<close>

text \<open>
  Every write operation ends in \<open>_send_tx\<close>. Whenever \<open>_send_tx\<close> returns, the
  transaction was submitted, its receipt was obtained and reports status 1, and the value
  returned is the transaction hash.
\<close>

lemma send_tx_returns:
  assumes "send_tx E c t = (Inr h, tr)"
  shows "\<exists>a tx_hash r. client_account c = Some a
         \<and> send_raw_transaction E (SignedTransaction (private_key a) t) = Inr tx_hash
         \<and> wait_for_transaction_receipt E tx_hash = Inr r \<and> status r = 1
         \<and> h = HexBytes_hex tx_hash
         \<and> tr = [SendRawTransaction (SignedTransaction (private_key a) t),
                 WaitForTransactionReceipt tx_hash]"
  using assms by (auto simp: send_tx_def Let_def split: option.splits sum.splits if_splits)

text \<open>
  Whenever the receipt reports another status, \<open>_send_tx\<close> raises
  \<open>TransactionFailedError\<close>. The hash of the transaction is part of the message; the
  attribute \<open>tx_hash\<close> that the class has for it is \<open>None\<close>.
\<close>

lemma send_tx_failed_receipt:
  assumes "client_account c = Some a"
    and "send_raw_transaction E (SignedTransaction (private_key a) t) = Inr tx_hash"
    and "wait_for_transaction_receipt E tx_hash = Inr r" and "status r \<noteq> 1"
  shows "send_tx E c t =
           (Inl \<lparr>exc_class = ''TransactionFailedError'',
                 exc_msg = ''Transaction failed: '' @ HexBytes_hex tx_hash,
                 exc_tx_hash = None\<rparr>,
            [SendRawTransaction (SignedTransaction (private_key a) t),
             WaitForTransactionReceipt tx_hash])"
  using assms by (simp add: send_tx_def TransactionFailedError_def)

text \<open>
  Claim C8. The first half of the claim holds (\<open>send_tx_returns\<close>). The second half does
  not: \<open>TransactionFailedError\<close> has the attribute \<open>tx_hash\<close> for the caller to inspect,
  but \<open>_send_tx\<close> passes the constructor the message only. With a node that reports
  receipt status 0 for the transaction of hash \<open>ab\<dots>ab\<close>, both \<open>_send_tx\<close> and the write
  operation \<open>rate_service\<close> raise a \<open>TransactionFailedError\<close> whose \<open>tx_hash\<close> is \<open>None\<close>;
  the hash appears in the text of the message only.
\<close>

theorem failed_receipt_tx_hash_is_None:
  "send_tx (example_env 0) example_client example_tx
     = (Inl \<lparr>exc_class = ''TransactionFailedError'',
             exc_msg = ''Transaction failed: 0xabababababababababababababababababababababababababababababababab'',
             exc_tx_hash = None\<rparr>,
        [SendRawTransaction (SignedTransaction (replicate 32 0x11) example_tx),
         WaitForTransactionReceipt (replicate 32 0xab)])
   \<and> fst (rate_service (example_env 0) example_client
          ''0x00000000000000000000000000000000000000b2'' ''vision'' 5)
     = Inl \<lparr>exc_class = ''TransactionFailedError'',
            exc_msg = ''Transaction failed: 0xabababababababababababababababababababababababababababababababab'',
            exc_tx_hash = None\<rparr>"
proof -
  have a: "client_account example_client = Some example_account" by (simp add: example_client_def)
  have ca: "client_address example_client = Inr 0xa1"
    by (simp add: client_address_def example_client_def example_account_def)
  have ct: "contract_attr example_client ''reputation'' = Inr 0xc2"
    by (simp add: contract_attr_def example_client_def)
  have g: "get_transaction_count (example_env 0) x = Inr 7" "gas_price (example_env 0) = Inr 100"
    "chain_id (example_env 0) = Inr 421614" for x
    by (simp_all add: example_env_def)
  have s: "send_tx (example_env 0) example_client t
     = (Inl \<lparr>exc_class = ''TransactionFailedError'',
             exc_msg = ''Transaction failed: 0xabababababababababababababababababababababababababababababababab'',
             exc_tx_hash = None\<rparr>,
        [SendRawTransaction (SignedTransaction (replicate 32 0x11) t),
         WaitForTransactionReceipt (replicate 32 0xab)])" for t
    using send_tx_failed_receipt [OF a, of "example_env 0" t "replicate 32 0xab" "\<lparr>status = 0\<rparr>"]
      example_hash_hex
    by (simp add: example_env_def example_account_def)
  have "fst (rate_service (example_env 0) example_client
          ''0x00000000000000000000000000000000000000b2'' ''vision'' 5)
     = Inl \<lparr>exc_class = ''TransactionFailedError'',
            exc_msg = ''Transaction failed: 0xabababababababababababababababababababababababababababababababab'',
            exc_tx_hash = None\<rparr>"
    unfolding rate_service_def transact_def build_tx_steps and_then_assoc
    by (simp add: example_provider ca ct g s)
  with s [of example_tx] show ?thesis by simp
qed

section \<open>Decimal digits\<close>

declare digits_of.simps [simp del]

lemma numdigits_rec: "numdigits c = (if c < 10 then 1 else Suc (numdigits (c div 10)))"
  unfolding numdigits_def by (subst digits_of.simps) simp

lemma numdigits_pos [simp]: "0 < numdigits c"
  by (subst numdigits_rec) simp

lemma numdigits_upper: "c < 10 ^ numdigits c"
proof (induction c rule: less_induct)
  case (less c)
  show ?case
  proof (cases "c < 10")
    case True
    then show ?thesis by (subst numdigits_rec) simp
  next
    case False
    then have "c div 10 < c" by simp
    from less.IH [OF this] have "c div 10 < 10 ^ numdigits (c div 10)" .
    then have "c < 10 * 10 ^ numdigits (c div 10)" by simp
    with False show ?thesis by (subst numdigits_rec) simp
  qed
qed

lemma numdigits_lower: "0 < c \<Longrightarrow> 10 ^ (numdigits c - 1) \<le> c"
proof (induction c rule: less_induct)
  case (less c)
  show ?case
  proof (cases "c < 10")
    case True
    with less.prems show ?thesis by (subst numdigits_rec) simp
  next
    case False
    then have lt: "c div 10 < c" and pos: "0 < c div 10" by simp_all
    from less.IH [OF lt pos] have "10 ^ (numdigits (c div 10) - 1) \<le> c div 10" .
    then have "10 * 10 ^ (numdigits (c div 10) - 1) \<le> c" by simp
    moreover have "10 * (10::nat) ^ (numdigits (c div 10) - 1) = 10 ^ numdigits (c div 10)"
      using numdigits_pos [of "c div 10"] by (cases "numdigits (c div 10)") simp_all
    ultimately show ?thesis using False by (subst numdigits_rec) simp
  qed
qed

lemma numdigits_eqI:
  assumes "10 ^ (k - 1) \<le> c" "c < 10 ^ k" "0 < k"
  shows "numdigits c = k"
proof -
  have cpos: "0 < c" using assms(1) by (metis gr0I not_less_eq_eq power_eq_0_iff zero_neq_numeral le_zero_eq)
  have "(10::nat) ^ (numdigits c - 1) < 10 ^ k"
    by (rule le_less_trans [OF numdigits_lower [OF cpos] assms(2)])
  then have a: "numdigits c - 1 < k" by (rule power_less_imp_less_exp [rotated]) simp
  have "(10::nat) ^ (k - 1) < 10 ^ numdigits c"
    by (rule le_less_trans [OF assms(1) numdigits_upper])
  then have b: "k - 1 < numdigits c" by (rule power_less_imp_less_exp [rotated]) simp
  from a b assms(3) numdigits_pos [of c] show ?thesis by linarith
qed

lemma numdigits_mult_power: "0 < c \<Longrightarrow> numdigits (c * 10 ^ k) = numdigits c + k"
proof (rule numdigits_eqI)
  assume c: "0 < c"
  have "10 ^ (numdigits c - 1) * 10 ^ k \<le> c * 10 ^ k"
    using numdigits_lower [OF c] by simp
  moreover have "numdigits c + k - 1 = (numdigits c - 1) + k"
    using numdigits_pos [of c] by linarith
  ultimately show "10 ^ (numdigits c + k - 1) \<le> c * 10 ^ k"
    by (simp add: power_add)
  show "c * 10 ^ k < 10 ^ (numdigits c + k)"
    using numdigits_upper [of c] by (simp add: power_add)
  show "0 < numdigits c + k" by simp
qed

lemma numdigits_power: "numdigits (10 ^ k) = Suc k"
  using numdigits_mult_power [of 1 k] numdigits_rec [of 1] by simp

lemma numdigits_le: "c < 10 ^ k \<Longrightarrow> 0 < k \<Longrightarrow> numdigits c \<le> k"
proof (cases "c = 0")
  case True
  assume "0 < k"
  with True show ?thesis by (simp add: numdigits_rec [of 0])
next
  case False
  assume "c < 10 ^ k"
  with numdigits_lower [of c] False have "(10::nat) ^ (numdigits c - 1) < 10 ^ k"
    by (metis le_less_trans neq0_conv)
  then have "numdigits c - 1 < k" by (rule power_less_imp_less_exp [rotated]) simp
  then show ?thesis by linarith
qed

section \<open>Exact cases of the decimal arithmetic\<close>

lemma dec_fix_id: "numdigits (dec_int d) \<le> prec \<Longrightarrow> dec_fix prec d = d"
  by (simp add: dec_fix_def)

text \<open>Digits dropped by the rounding that are all zero leave the value unchanged.\<close>

lemma dec_fix_exact:
  assumes "prec < numdigits (dec_int d)" "0 < prec"
    and "10 ^ (numdigits (dec_int d) - prec) dvd dec_int d"
  shows "dec_fix prec d =
           d\<lparr>dec_int := dec_int d div 10 ^ (numdigits (dec_int d) - prec),
             dec_exp := dec_exp d + int (numdigits (dec_int d) - prec)\<rparr>"
proof -
  let ?c = "dec_int d" and ?k = "numdigits (dec_int d) - prec"
  have r: "?c mod 10 ^ ?k = 0" using assms(3) by simp
  have cpos: "0 < ?c"
  proof (rule ccontr)
    assume "\<not> 0 < ?c"
    then have "numdigits ?c = 1" by (simp add: numdigits_rec [of 0])
    with assms(1,2) show False by simp
  qed
  have eq: "?c = (?c div 10 ^ ?k) * 10 ^ ?k" using assms(3) by simp
  have qpos: "0 < ?c div 10 ^ ?k" using cpos eq by (metis mult_0 neq0_conv)
  have "numdigits ?c = numdigits (?c div 10 ^ ?k) + ?k"
    using numdigits_mult_power [OF qpos, of ?k] eq by simp
  then have nq: "numdigits (?c div 10 ^ ?k) = prec" using assms(1) by linarith
  show ?thesis
    using assms(1) r nq by (simp add: dec_fix_def Let_def)
qed

lemma dec_mul_exact:
  "numdigits (dec_int a * dec_int b) \<le> prec \<Longrightarrow>
     dec_mul prec a b = \<lparr>dec_sign = (dec_sign a \<noteq> dec_sign b), dec_int = dec_int a * dec_int b,
                          dec_exp = dec_exp a + dec_exp b\<rparr>"
  by (simp add: dec_mul_def dec_fix_id)

declare strip_zeros.simps [simp del]

lemma strip_zeros_power:
  "exp + int j \<le> ideal \<Longrightarrow> strip_zeros (a * 10 ^ j) exp ideal = strip_zeros a (exp + int j) ideal"
proof (induction j arbitrary: exp)
  case 0
  then show ?case by simp
next
  case (Suc j)
  have lt: "exp < ideal" using Suc.prems by simp
  have "strip_zeros (a * 10 ^ Suc j) exp ideal = strip_zeros (a * 10 ^ j) (exp + 1) ideal"
    using lt by (subst strip_zeros.simps) simp
  also have "\<dots> = strip_zeros a (exp + 1 + int j) ideal"
    using Suc.prems by (intro Suc.IH) simp
  finally show ?case by (simp add: ac_simps)
qed

lemma strip_zeros_stop: "\<not> (exp < ideal \<and> a mod 10 = 0) \<Longrightarrow> strip_zeros a exp ideal = (a, exp)"
  by (subst strip_zeros.simps) auto

lemma dec_div_exactI:
  assumes "dec_int b \<noteq> 0" "dec_int a \<noteq> 0"
    and "int (numdigits (dec_int b)) - int (numdigits (dec_int a)) + int prec + 1 = int s"
    and "dec_int a * 10 ^ s = q * dec_int b"
    and "strip_zeros q (dec_exp a - dec_exp b - int s) (dec_exp a - dec_exp b) = (c, e)"
    and "numdigits c \<le> prec"
  shows "dec_div prec a b = Inr \<lparr>dec_sign = (dec_sign a \<noteq> dec_sign b), dec_int = c, dec_exp = e\<rparr>"
proof -
  have d: "dec_int a * 10 ^ s div dec_int b = q" and m: "dec_int a * 10 ^ s mod dec_int b = 0"
    using assms(1,4) by simp_all
  show ?thesis
    unfolding dec_div_def Let_def assms(3)
    using assms(1,2,5,6) d m by (simp add: dec_fix_id)
qed

text \<open>The unit divided by a power of ten, in the default context.\<close>

lemma dec_div_ether:
  "dec_div 28 ether (dec_of_int (10 ^ m)) =
     Inr (if m \<le> 18 then \<lparr>dec_sign = False, dec_int = 10 ^ (18 - m), dec_exp = 0\<rparr>
          else \<lparr>dec_sign = False, dec_int = 1, dec_exp = 18 - int m\<rparr>)"
proof -
  let ?b = "dec_of_int (10 ^ m)"
  have b: "dec_int ?b = 10 ^ m" "dec_sign ?b = False" "dec_exp ?b = 0"
    by (simp_all add: dec_of_int_def nat_power_eq)
  have a: "dec_int ether = 10 ^ 18" "dec_sign ether = False" "dec_exp ether = 0"
    by (simp_all add: ether_def)
  have h1: "dec_int ?b \<noteq> 0" and h2: "dec_int ether \<noteq> 0" by (simp_all add: a b)
  have h3: "int (numdigits (dec_int ?b)) - int (numdigits (dec_int ether)) + int 28 + 1 = int (m + 11)"
    unfolding a b numdigits_power by simp
  have h4: "dec_int ether * 10 ^ (m + 11) = 10 ^ 29 * dec_int ?b"
    unfolding a b by (simp add: power_add)
  show ?thesis
  proof (cases "m \<le> 18")
    case True
    have "(10::nat) ^ 29 = 10 ^ (18 - m) * 10 ^ (m + 11)"
      using True by (simp flip: power_add)
    then have "strip_zeros (10 ^ 29) (0 - 0 - int (m + 11)) (0 - 0)
        = strip_zeros (10 ^ (18 - m) * 10 ^ (m + 11)) (0 - 0 - int (m + 11)) (0 - 0)"
      by simp
    also have "\<dots> = strip_zeros (10 ^ (18 - m)) (0 - 0 - int (m + 11) + int (m + 11)) (0 - 0)"
      by (rule strip_zeros_power) simp
    also have "\<dots> = (10 ^ (18 - m), 0)"
      using strip_zeros_stop [of 0 0 "10 ^ (18 - m)"] by simp
    finally have h5: "strip_zeros (10 ^ 29) (dec_exp ether - dec_exp ?b - int (m + 11))
        (dec_exp ether - dec_exp ?b) = (10 ^ (18 - m), 0)"
      unfolding a b .
    have h6: "numdigits (10 ^ (18 - m)) \<le> 28"
      unfolding numdigits_power by simp
    from dec_div_exactI [OF h1 h2 h3 h4 h5 h6] True show ?thesis by (simp add: a b)
  next
    case False
    have "strip_zeros (1 * 10 ^ 29) (0 - 0 - int (m + 11)) (0 - 0)
        = strip_zeros 1 (0 - 0 - int (m + 11) + int 29) (0 - 0)"
      using False by (intro strip_zeros_power) simp
    also have "\<dots> = (1, 18 - int m)"
      using strip_zeros_stop [of "18 - int m" 0 1] by simp
    finally have h5: "strip_zeros (10 ^ 29) (dec_exp ether - dec_exp ?b - int (m + 11))
        (dec_exp ether - dec_exp ?b) = (1, 18 - int m)"
      unfolding a b by simp
    have h6: "numdigits 1 \<le> 28" using numdigits_rec [of 1] by simp
    from dec_div_exactI [OF h1 h2 h3 h4 h5 h6] False show ?thesis by (simp add: a b)
  qed
qed

section \<open>The text of a decimal\<close>

lemma upt_10: "[0..<10] = [0, 1, 2, 3, 4, 5, 6, 7, 8, 9::nat]"
  by (simp add: upt_conv_Cons)

lemma digit_char_props: "is_digit (digit_char n) \<and> digit_val (digit_char n) = n mod 10"
proof -
  have "n mod 10 \<in> set [0..<10]" by simp
  then have "n mod 10 \<in> set [0, 1, 2, 3, 4, 5, 6, 7, 8, 9::nat]" unfolding upt_10 .
  moreover have "\<forall>k \<in> set [0, 1, 2, 3, 4, 5, 6, 7, 8, 9::nat].
      is_digit (''0123456789'' ! k) \<and> digit_val (''0123456789'' ! k) = k"
    by (simp add: is_digit_def digit_val_def)
  ultimately show ?thesis unfolding digit_char_def by (metis mod_mod_trivial)
qed

lemma is_digit_digit_char [simp]: "is_digit (digit_char n)"
  using digit_char_props by blast

lemma digit_val_digit_char [simp]: "digit_val (digit_char n) = n mod 10"
  using digit_char_props by blast

lemma digits_of_all_digits: "list_all is_digit (digits_of c)"
proof (induction c rule: less_induct)
  case (less c)
  show ?case
  proof (cases "c < 10")
    case True
    then show ?thesis by (subst digits_of.simps) simp
  next
    case False
    then have "c div 10 < c" by simp
    from less.IH [OF this] False show ?thesis by (subst digits_of.simps) simp
  qed
qed

lemma is_digit_not_point: "is_digit x \<Longrightarrow> x \<noteq> CHR ''.''"
  by (auto simp: is_digit_def)

lemma point_notin_digits [simp]: "CHR ''.'' \<notin> set (digits_of c)"
  using digits_of_all_digits [of c] by (auto simp: list_all_iff dest: is_digit_not_point)

lemma point_notin_signed_str [simp]: "CHR ''.'' \<notin> set (signed_str k)"
  by (simp add: signed_str_def)

lemma length_signed_str: "length (signed_str k) = Suc (numdigits (nat \<bar>k\<bar>))"
  by (simp add: signed_str_def numdigits_def)

lemma digits_of_nonempty [simp]: "digits_of c \<noteq> []"
  using numdigits_pos [of c] unfolding numdigits_def by auto

lemma takeWhile_not_point_digits:
  "takeWhile (\<lambda>x. x \<noteq> CHR ''.'') (digits_of c @ r) = digits_of c @ takeWhile (\<lambda>x. x \<noteq> CHR ''.'') r"
  by (rule takeWhile_append2) (metis point_notin_digits)

text \<open>The number of characters after the point, for a positive number below 1.\<close>

lemma dec_str_small:
  assumes "\<not> dec_sign d" "dec_int d \<noteq> 0" "dec_less_int d 1"
  defines "n \<equiv> numdigits (dec_int d)"
  defines "s \<equiv> dec_str d"
  defines "m \<equiv> length s - length (takeWhile (\<lambda>x. x \<noteq> CHR ''.'') s) - 1"
  shows "dec_exp d < 0" and "int n \<le> - dec_exp d"
    and "CHR ''.'' \<in> set s \<Longrightarrow> n \<le> m \<and> 0 < m \<and>
           (- 6 < dec_exp d + int n \<longrightarrow> int m = - dec_exp d) \<and>
           (dec_exp d + int n \<le> - 6 \<longrightarrow> m = n + Suc (numdigits (nat (1 - dec_exp d - int n))))"
proof -
  let ?c = "dec_int d" and ?e = "dec_exp d"
  have cpos: "0 < ?c" using assms(2) by simp
  show e: "?e < 0"
  proof (rule ccontr)
    assume "\<not> ?e < 0"
    with assms(1,3) have "int ?c * 10 ^ nat ?e < 1" by (simp add: dec_less_int_def dec_signed_def)
    moreover have "1 \<le> int ?c" using cpos by simp
    moreover have "(1::int) \<le> 10 ^ nat ?e" by simp
    ultimately show False by (smt (verit) mult_le_cancel_left1 mult_less_cancel_right2)
  qed
  with assms(1,3) have "int ?c < 10 ^ nat (- ?e)" by (simp add: dec_less_int_def dec_signed_def)
  then have "?c < 10 ^ nat (- ?e)" by (metis of_nat_less_iff of_nat_numeral of_nat_power)
  then have "numdigits ?c \<le> nat (- ?e)" using e by (intro numdigits_le) simp_all
  then have "int (numdigits ?c) \<le> int (nat (- ?e))" by (simp only: of_nat_le_iff)
  then show n: "int n \<le> - ?e" using e unfolding n_def by simp
  assume pt: "CHR ''.'' \<in> set s"
  have len: "length (digits_of ?c) = n" by (simp add: n_def numdigits_def)
  show "n \<le> m \<and> 0 < m \<and>
           (- 6 < ?e + int n \<longrightarrow> int m = - ?e) \<and>
           (?e + int n \<le> - 6 \<longrightarrow> m = n + Suc (numdigits (nat (1 - ?e - int n))))"
  proof (cases "- 6 < ?e + int n")
    case True
    have s1: "s = ''0'' @ ''.'' @ replicate (nat (- (?e + int n))) CHR ''0'' @ digits_of ?c"
      using True e n assms(1) unfolding s_def dec_str_def Let_def len by simp
    have "m = nat (- (?e + int n)) + n"
      unfolding m_def s1 by (simp add: len)
    with True n e show ?thesis using numdigits_pos [of ?c] unfolding n_def by simp
  next
    case False
    show ?thesis
    proof (cases "n = 1")
      case True
      have "s = digits_of ?c @ ''E'' @ signed_str (?e + int n - 1)"
        using False e n assms(1) True unfolding s_def dec_str_def Let_def len by simp
      with pt show ?thesis by simp
    next
      case n1: False
      have n2: "1 < n" using n1 numdigits_pos [of ?c] unfolding n_def by linarith
      have s1: "s = take 1 (digits_of ?c) @ ''.'' @ drop 1 (digits_of ?c) @ ''E'' @ signed_str (?e + int n - 1)"
        using False e n assms(1) n2 unfolding s_def dec_str_def Let_def len by simp
      obtain x xs where ds: "digits_of ?c = x # xs"
        using digits_of_nonempty [of ?c] by (cases "digits_of ?c") auto
      have x: "x \<noteq> CHR ''.''" using point_notin_digits [of ?c] unfolding ds by auto
      have lxs: "length xs = n - 1" using len unfolding ds by simp
      have "m = length xs + Suc (length (signed_str (?e + int n - 1)))"
        unfolding m_def s1 ds using x by simp
      also have "\<dots> = n + Suc (numdigits (nat \<bar>?e + int n - 1\<bar>))"
        using n2 by (simp add: lxs length_signed_str)
      also have "nat \<bar>?e + int n - 1\<bar> = nat (1 - ?e - int n)" using False by simp
      finally have "m = n + Suc (numdigits (nat (1 - ?e - int n)))" .
      with False show ?thesis by simp
    qed
  qed
qed

section \<open>Conversion to wei\<close>

lemma dec_to_int_scale:
  "dec_to_int \<lparr>dec_sign = False, dec_int = c * 10 ^ j, dec_exp = e - int j\<rparr>
     = dec_to_int \<lparr>dec_sign = False, dec_int = c, dec_exp = e\<rparr>"
proof (cases "0 \<le> e - int j")
  case True
  then have "nat e = nat (e - int j) + j" by simp
  then have "(10::int) ^ nat e = 10 ^ nat (e - int j) * 10 ^ j" by (simp add: power_add)
  with True show ?thesis by (simp add: dec_to_int_def dec_signed_def)
next
  case False
  show ?thesis
  proof (cases "0 \<le> e")
    case True
    with False have "j = nat e + nat (int j - e)" by simp
    then have p: "(10::nat) ^ j = 10 ^ nat e * 10 ^ nat (int j - e)" by (metis power_add)
    have "c * 10 ^ j div 10 ^ nat (int j - e) = c * 10 ^ nat e"
      unfolding p by simp
    with True False show ?thesis by (simp add: dec_to_int_def dec_signed_def)
  next
    case e: False
    then have "nat (int j - e) = j + nat (- e)" by simp
    then have p: "(10::nat) ^ nat (int j - e) = 10 ^ j * 10 ^ nat (- e)" by (simp add: power_add)
    have "c * 10 ^ j div 10 ^ nat (int j - e) = c div 10 ^ nat (- e)"
      unfolding p by (simp add: mult.commute [of c])
    with e False show ?thesis by (simp add: dec_to_int_def dec_signed_def)
  qed
qed

lemma dec_greater_int_scale:
  "dec_greater_int \<lparr>dec_sign = False, dec_int = c * 10 ^ j, dec_exp = e - int j\<rparr> k
     = dec_greater_int \<lparr>dec_sign = False, dec_int = c, dec_exp = e\<rparr> k"
proof (cases "0 \<le> e - int j")
  case True
  then have "nat e = nat (e - int j) + j" by simp
  then have "(10::int) ^ nat e = 10 ^ nat (e - int j) * 10 ^ j" by (simp add: power_add)
  with True show ?thesis by (simp add: dec_greater_int_def dec_signed_def ac_simps)
next
  case False
  show ?thesis
  proof (cases "0 \<le> e")
    case True
    with False have "j = nat e + nat (int j - e)" by simp
    then have p: "(10::int) ^ j = 10 ^ nat e * 10 ^ nat (int j - e)" by (metis power_add)
    have "(k * 10 ^ nat (int j - e) < int c * 10 ^ j) = (k < int c * 10 ^ nat e)"
      unfolding p by (simp flip: mult.assoc)
    with True False show ?thesis by (simp add: dec_greater_int_def dec_signed_def)
  next
    case e: False
    then have "nat (int j - e) = nat (- e) + j" by simp
    then have p: "(10::int) ^ nat (int j - e) = 10 ^ nat (- e) * 10 ^ j" by (simp add: power_add)
    have "(k * 10 ^ nat (int j - e) < int c * 10 ^ j) = (k * 10 ^ nat (- e) < int c)"
      unfolding p by (simp flip: mult.assoc)
    with e False show ?thesis by (simp add: dec_greater_int_def dec_signed_def)
  qed
qed

lemma dec_less_int_nonneg:
  "\<not> dec_less_int \<lparr>dec_sign = False, dec_int = c, dec_exp = e\<rparr> 0"
  by (simp add: dec_less_int_def dec_signed_def not_less)

lemma wei_of_result_scale:
  "wei_of_result \<lparr>dec_sign = False, dec_int = c * 10 ^ j, dec_exp = e - int j\<rparr>
     = wei_of_result \<lparr>dec_sign = False, dec_int = c, dec_exp = e\<rparr>"
  unfolding wei_of_result_def dec_to_int_scale dec_greater_int_scale MIN_WEI_def
  by (simp add: dec_less_int_nonneg)

lemma Web3_to_wei_unscaled:
  assumes "dec_int d \<noteq> 0" "\<not> (dec_less_int d 1 \<and> CHR ''.'' \<in> set (dec_str d))"
  shows "Web3_to_wei d = wei_of_result (dec_mul 999 d ether)"
proof -
  have c: "(dec_less_int d 1 \<and> CHR ''.'' \<in> set (dec_str d)) = False" "(dec_int d = 0) = False"
    using assms by simp_all
  show ?thesis
    unfolding Web3_to_wei_def wei_of_result_def Let_def c
    by (simp only: if_False sum.case prod.case)
qed

lemma Web3_to_wei_scaled:
  assumes "dec_int d \<noteq> 0" "dec_less_int d 1" "CHR ''.'' \<in> set (dec_str d)"
    and m: "m = length (dec_str d) - length (takeWhile (\<lambda>x. x \<noteq> CHR ''.'') (dec_str d)) - 1"
    and "0 < m"
    and u: "dec_div 28 ether (dec_of_int (10 ^ m)) = Inr u"
  shows "Web3_to_wei d = wei_of_result (dec_mul 999 (dec_mul m d (dec_of_int (10 ^ m))) u)"
proof -
  have c: "(dec_less_int d 1 \<and> CHR ''.'' \<in> set (dec_str d)) = True" "(dec_int d = 0) = False"
    "(m = 0) = False"
    using assms by simp_all
  show ?thesis
    unfolding Web3_to_wei_def wei_of_result_def Let_def m [symmetric] c u
    by (simp only: if_False if_True sum.case prod.case)
qed

lemma dec_mul_scale_up:
  assumes "\<not> dec_sign d" "dec_int d \<noteq> 0" "numdigits (dec_int d) \<le> m" "0 < m"
  shows "dec_mul m d (dec_of_int (10 ^ m)) =
           \<lparr>dec_sign = False, dec_int = dec_int d * 10 ^ (m - numdigits (dec_int d)),
            dec_exp = dec_exp d + int (numdigits (dec_int d))\<rparr>"
proof -
  let ?c = "dec_int d" and ?n = "numdigits (dec_int d)"
  let ?p = "\<lparr>dec_sign = False, dec_int = ?c * 10 ^ m, dec_exp = dec_exp d\<rparr>"
  have cpos: "0 < ?c" using assms(2) by simp
  have nd: "numdigits (dec_int ?p) = ?n + m" using numdigits_mult_power [OF cpos] by simp
  have k: "numdigits (dec_int ?p) - m = ?n" using nd by simp
  have split: "(10::nat) ^ m = 10 ^ (m - ?n) * 10 ^ ?n"
    using assms(3) by (simp flip: power_add)
  have dv: "10 ^ (numdigits (dec_int ?p) - m) dvd dec_int ?p"
    unfolding k by (simp add: split)
  have dq: "dec_int ?p div 10 ^ ?n = ?c * 10 ^ (m - ?n)"
    by (simp add: split flip: mult.assoc)
  have lt: "m < numdigits (dec_int ?p)" using nd by simp
  have "dec_mul m d (dec_of_int (10 ^ m)) = dec_fix m ?p"
    using assms(1) by (simp add: dec_mul_def dec_of_int_def nat_power_eq)
  also have "\<dots> = ?p\<lparr>dec_int := dec_int ?p div 10 ^ (numdigits (dec_int ?p) - m),
                       dec_exp := dec_exp ?p + int (numdigits (dec_int ?p) - m)\<rparr>"
    by (rule dec_fix_exact [OF lt assms(4) dv])
  also have "\<dots> = \<lparr>dec_sign = False, dec_int = ?c * 10 ^ (m - ?n), dec_exp = dec_exp d + int ?n\<rparr>"
    unfolding k dq by simp
  finally show ?thesis .
qed

lemma Web3_to_wei_nonneg:
  assumes ns: "\<not> dec_sign d" and nz: "dec_int d \<noteq> 0"
    and cb: "numdigits (dec_int d) \<le> 900" and eb: "- 900 \<le> dec_exp d"
  shows "Web3_to_wei d =
           wei_of_result \<lparr>dec_sign = False, dec_int = dec_int d, dec_exp = dec_exp d + 18\<rparr>"
proof -
  define c where "c = dec_int d"
  define e where "e = dec_exp d"
  define n where "n = numdigits c"
  have cpos: "0 < c" using nz by (simp add: c_def)
  have n900: "n \<le> 900" using cb by (simp add: n_def c_def)
  have d: "d = \<lparr>dec_sign = False, dec_int = c, dec_exp = e\<rparr>"
    using ns by (simp add: c_def e_def)
  show ?thesis
  proof (cases "dec_less_int d 1 \<and> CHR ''.'' \<in> set (dec_str d)")
    case False
    have "numdigits (dec_int d * dec_int ether) = n + 18"
      using numdigits_mult_power [OF cpos, of 18] by (simp add: ether_def c_def n_def)
    then have "numdigits (dec_int d * dec_int ether) \<le> 999" using n900 by simp
    then have "dec_mul 999 d ether =
        \<lparr>dec_sign = False, dec_int = c * 10 ^ 18, dec_exp = (e + 18) - int 18\<rparr>"
      using ns by (simp add: dec_mul_exact ether_def c_def e_def)
    then have "Web3_to_wei d = wei_of_result \<lparr>dec_sign = False, dec_int = c * 10 ^ 18, dec_exp = (e + 18) - int 18\<rparr>"
      using Web3_to_wei_unscaled [OF nz False] by simp
    then show ?thesis unfolding wei_of_result_scale by (simp add: c_def e_def)
  next
    case True
    then have less: "dec_less_int d 1" and pt: "CHR ''.'' \<in> set (dec_str d)" by simp_all
    define m where "m = length (dec_str d) - length (takeWhile (\<lambda>x. x \<noteq> CHR ''.'') (dec_str d)) - 1"
    note small = dec_str_small [OF ns nz less]
    have eneg: "e < 0" and ne: "int n \<le> - e"
      using small(1,2) by (simp_all add: e_def n_def c_def)
    have mfacts: "n \<le> m \<and> 0 < m \<and> (- 6 < e + int n \<longrightarrow> int m = - e) \<and>
        (e + int n \<le> - 6 \<longrightarrow> m = n + Suc (numdigits (nat (1 - e - int n))))"
      using small(3) [OF pt] unfolding m_def e_def n_def c_def .
    then have nm: "n \<le> m" and mpos: "0 < m" by simp_all
    have m999: "m \<le> 999"
    proof (cases "- 6 < e + int n")
      case True
      with mfacts have "int m = - e" by simp
      with eb show ?thesis by (simp add: e_def)
    next
      case False
      with mfacts have mm: "m = n + Suc (numdigits (nat (1 - e - int n)))" by simp
      have "nat (1 - e - int n) < 10 ^ 3" using eb by (simp add: e_def)
      then have "numdigits (nat (1 - e - int n)) \<le> 3" by (intro numdigits_le) simp_all
      with mm n900 show ?thesis by simp
    qed
    have dn: "dec_mul m d (dec_of_int (10 ^ m)) =
        \<lparr>dec_sign = False, dec_int = c * 10 ^ (m - n), dec_exp = e + int n\<rparr>"
      using dec_mul_scale_up [OF ns nz _ mpos] nm by (simp add: c_def e_def n_def)
    show ?thesis
    proof (cases "m \<le> 18")
      case m18: True
      let ?u = "\<lparr>dec_sign = False, dec_int = 10 ^ (18 - m), dec_exp = 0\<rparr>"
      have u: "dec_div 28 ether (dec_of_int (10 ^ m)) = Inr ?u"
        using m18 by (simp add: dec_div_ether)
      have pr: "c * 10 ^ (m - n) * 10 ^ (18 - m) = c * 10 ^ (18 - n)"
        using nm m18 by (simp add: mult.assoc flip: power_add)
      have "numdigits (c * 10 ^ (18 - n)) = n + (18 - n)"
        using numdigits_mult_power [OF cpos] by (simp add: n_def)
      then have nd: "numdigits (c * 10 ^ (m - n) * 10 ^ (18 - m)) \<le> 999"
        unfolding pr using n900 by simp
      have n18: "n \<le> 18" using nm m18 by simp
      have j: "e + int n + 0 = (e + 18) - int (18 - n)" using n18 by simp
      have "dec_mul 999 \<lparr>dec_sign = False, dec_int = c * 10 ^ (m - n), dec_exp = e + int n\<rparr> ?u =
          \<lparr>dec_sign = False, dec_int = c * 10 ^ (m - n) * 10 ^ (18 - m), dec_exp = e + int n + 0\<rparr>"
        by (rule trans [OF dec_mul_exact]) (simp_all add: nd)
      then have "dec_mul 999 (dec_mul m d (dec_of_int (10 ^ m))) ?u =
          \<lparr>dec_sign = False, dec_int = c * 10 ^ (18 - n), dec_exp = (e + 18) - int (18 - n)\<rparr>"
        unfolding dn pr j .
      then have "Web3_to_wei d =
          wei_of_result \<lparr>dec_sign = False, dec_int = c * 10 ^ (18 - n), dec_exp = (e + 18) - int (18 - n)\<rparr>"
        using Web3_to_wei_scaled [OF nz less pt m_def mpos u] by simp
      then show ?thesis unfolding wei_of_result_scale by (simp add: c_def e_def)
    next
      case m18: False
      let ?u = "\<lparr>dec_sign = False, dec_int = 1, dec_exp = 18 - int m\<rparr>"
      have u: "dec_div 28 ether (dec_of_int (10 ^ m)) = Inr ?u"
        using m18 by (simp add: dec_div_ether)
      have "numdigits (c * 10 ^ (m - n)) = n + (m - n)"
        using numdigits_mult_power [OF cpos] by (simp add: n_def)
      then have nd: "numdigits (c * 10 ^ (m - n)) \<le> 999"
        using nm m999 by simp
      have j: "e + int n + (18 - int m) = (e + 18) - int (m - n)" using nm by simp
      have "dec_mul 999 \<lparr>dec_sign = False, dec_int = c * 10 ^ (m - n), dec_exp = e + int n\<rparr> ?u =
          \<lparr>dec_sign = False, dec_int = c * 10 ^ (m - n) * 1, dec_exp = e + int n + (18 - int m)\<rparr>"
        by (rule trans [OF dec_mul_exact]) (simp_all add: nd)
      then have "dec_mul 999 (dec_mul m d (dec_of_int (10 ^ m))) ?u =
          \<lparr>dec_sign = False, dec_int = c * 10 ^ (m - n), dec_exp = (e + 18) - int (m - n)\<rparr>"
        unfolding dn j by simp
      then have "Web3_to_wei d =
          wei_of_result \<lparr>dec_sign = False, dec_int = c * 10 ^ (m - n), dec_exp = (e + 18) - int (m - n)\<rparr>"
        using Web3_to_wei_scaled [OF nz less pt m_def mpos u] by simp
      then show ?thesis unfolding wei_of_result_scale by (simp add: c_def e_def)
    qed
  qed
qed








section \<open>Reading a decimal back from its text\<close>

lemma int_of_digits_snoc: "int_of_digits (xs @ [x]) = 10 * int_of_digits xs + digit_val x"
  by (simp add: int_of_digits_def)

lemma int_of_digits_digits_of: "int_of_digits (digits_of c) = c"
proof (induction c rule: less_induct)
  case (less c)
  show ?case
  proof (cases "c < 10")
    case True
    then show ?thesis by (subst digits_of.simps) (simp add: int_of_digits_def)
  next
    case False
    then have "c div 10 < c" by simp
    from less.IH [OF this] False show ?thesis
      by (subst digits_of.simps) (simp add: int_of_digits_snoc)
  qed
qed

lemma int_of_digits_zeros: "int_of_digits (replicate k CHR ''0'' @ xs) = int_of_digits xs"
proof (induction k)
  case 0
  show ?case by simp
next
  case (Suc k)
  have "int_of_digits (CHR ''0'' # ys) = int_of_digits ys" for ys
    by (simp add: int_of_digits_def digit_val_def)
  then show ?case using Suc by simp
qed

lemma is_digit_zero [simp]: "is_digit CHR ''0''"
  by (simp add: is_digit_def)

lemma is_digit_not_sign: "is_digit x \<Longrightarrow> x \<noteq> CHR ''-'' \<and> x \<noteq> CHR ''+'' \<and> x \<noteq> CHR ''E''"
  by (auto simp: is_digit_def)

lemma takeWhile_digits:
  assumes "list_all is_digit xs" "r = [] \<or> \<not> is_digit (hd r)"
  shows "takeWhile is_digit (xs @ r) = xs" and "dropWhile is_digit (xs @ r) = r"
proof -
  have a: "\<And>x. x \<in> set xs \<Longrightarrow> is_digit x" using assms(1) by (simp add: list_all_iff)
  have t: "takeWhile is_digit r = []" and d: "dropWhile is_digit r = r"
    using assms(2) by (cases r; simp)+
  show "takeWhile is_digit (xs @ r) = xs" using takeWhile_append2 [of xs is_digit r] a t by simp
  show "dropWhile is_digit (xs @ r) = r" using dropWhile_append2 [of xs is_digit r] a d by simp
qed

lemma parse_exponent_signed_str: "parse_exponent (CHR ''E'' # signed_str k) = Some k"
proof -
  show ?thesis
    unfolding parse_exponent_def signed_str_def Let_def
    by (simp add: int_of_digits_digits_of digits_of_all_digits)
qed

lemma Decimal_of_str_parts:
  assumes ip: "list_all is_digit ip" "ip \<noteq> []" and fp: "list_all is_digit fp"
    and ex: "ex = [] \<or> hd ex = CHR ''E''" and pe: "parse_exponent ex = Some k"
  shows "Decimal_of_str (ip @ CHR ''.'' # fp @ ex) =
           Inr \<lparr>dec_sign = False, dec_int = int_of_digits (ip @ fp), dec_exp = k - int (length fp)\<rparr>"
    and "Decimal_of_str (ip @ ex) = Inr \<lparr>dec_sign = False, dec_int = int_of_digits ip, dec_exp = k\<rparr>"
proof -
  obtain x xs where c: "ip = x # xs" using ip(2) by (cases ip) auto
  have x: "x \<noteq> CHR ''-''" "x \<noteq> CHR ''+''" using ip(1) is_digit_not_sign [of x] by (simp_all add: c)
  have nd: "\<not> is_digit CHR ''.''" "\<not> is_digit CHR ''E''" by (simp_all add: is_digit_def)
  have exd: "ex = [] \<or> \<not> is_digit (hd ex)" using ex nd by auto
  have exp: "ex = [] \<or> hd ex \<noteq> CHR ''.''" using ex by auto
  have t1: "takeWhile is_digit (ip @ CHR ''.'' # fp @ ex) = ip"
    and d1: "dropWhile is_digit (ip @ CHR ''.'' # fp @ ex) = CHR ''.'' # fp @ ex"
    using takeWhile_digits [OF ip(1), of "CHR ''.'' # fp @ ex"] nd by simp_all
  have t2: "takeWhile is_digit (fp @ ex) = fp" and d2: "dropWhile is_digit (fp @ ex) = ex"
    using takeWhile_digits [OF fp exd] by simp_all
  have t3: "takeWhile is_digit (ip @ ex) = ip" and d3: "dropWhile is_digit (ip @ ex) = ex"
    using takeWhile_digits [OF ip(1) exd] by simp_all
  have s1: "ip @ CHR ''.'' # fp @ ex = x # (xs @ CHR ''.'' # fp @ ex)" by (simp add: c)
  have s2: "ip @ ex = x # (xs @ ex)" by (simp add: c)
  have hp: "(case ex of [] \<Rightarrow> False | c # _ \<Rightarrow> c = CHR ''.'') = False"
    using exp by (cases ex) auto
  show "Decimal_of_str (ip @ CHR ''.'' # fp @ ex) =
           Inr \<lparr>dec_sign = False, dec_int = int_of_digits (ip @ fp), dec_exp = k - int (length fp)\<rparr>"
    unfolding Decimal_of_str_def Let_def
    apply (subst s1)+
    apply (simp only: list.case x if_False simp_thms)
    apply (subst s1 [symmetric])+
    apply (simp only: t1 d1 list.case list.sel if_True simp_thms t2 d2 pe option.case)
    using ip(2) apply simp
    done
  show "Decimal_of_str (ip @ ex) = Inr \<lparr>dec_sign = False, dec_int = int_of_digits ip, dec_exp = k\<rparr>"
    unfolding Decimal_of_str_def Let_def
    apply (subst s2)+
    apply (simp only: list.case x if_False simp_thms)
    apply (subst s2 [symmetric])+
    apply (simp only: t3 d3 hp if_False pe option.case)
    using ip(2) apply simp
    done
qed

lemma list_all_take_drop:
  "list_all P xs \<Longrightarrow> list_all P (take k xs) \<and> list_all P (drop k xs)"
  by (auto simp: list_all_iff dest: in_set_takeD in_set_dropD)

lemma Decimal_of_str_dec_str:
  assumes ns: "\<not> dec_sign d"
  shows "Decimal_of_str (dec_str d) = Inr d"
proof -
  define c where "c = dec_int d"
  define e where "e = dec_exp d"
  define ds where "ds = digits_of c"
  define n where "n = length ds"
  have d: "d = \<lparr>dec_sign = False, dec_int = c, dec_exp = e\<rparr>" using ns by (simp add: c_def e_def)
  have len: "length ds = n" by (simp add: n_def)
  have dsd: "digits_of (dec_int d) = ds" by (simp add: ds_def c_def)
  have npos: "0 < n" by (simp add: n_def ds_def)
  have all: "list_all is_digit ds" unfolding ds_def by (rule digits_of_all_digits)
  have val: "int_of_digits ds = c" unfolding ds_def by (rule int_of_digits_digits_of)
  have ne: "ds \<noteq> []" by (simp add: ds_def)
  have pe0: "parse_exponent [] = Some 0" by (simp add: parse_exponent_def)
  show ?thesis
  proof (cases "e \<le> 0 \<and> - 6 < e + int n")
    case True
    show ?thesis
    proof (cases "e + int n \<le> 0")
      case small: True
      define j where "j = nat (- (e + int n))"
      have s: "dec_str d = ''0'' @ CHR ''.'' # (replicate j CHR ''0'' @ ds) @ []"
        using True small ns npos unfolding dec_str_def Let_def dsd len j_def e_def [symmetric] by simp
      have fp: "list_all is_digit (replicate j CHR ''0'' @ ds)" using all by (auto simp add: list_all_iff)
      have "int_of_digits (''0'' @ replicate j CHR ''0'' @ ds) = int_of_digits (replicate (Suc j) CHR ''0'' @ ds)"
        by simp
      also have "\<dots> = c" unfolding int_of_digits_zeros val ..
      finally have v: "int_of_digits (''0'' @ replicate j CHR ''0'' @ ds) = c" .
      have x: "0 - int (length (replicate j CHR ''0'' @ ds)) = e"
        using small by (simp add: j_def n_def)
      show ?thesis
        unfolding s
        using Decimal_of_str_parts(1) [of "''0''" "replicate j CHR ''0'' @ ds" "[]" 0, OF _ _ fp _ pe0]
        unfolding v x by (simp add: d)
    next
      case mid: False
      show ?thesis
      proof (cases "e = 0")
        case e0: True
        have s: "dec_str d = ds @ []"
          using True e0 ns npos unfolding dec_str_def Let_def dsd len e_def [symmetric] by simp
        show ?thesis
          unfolding s using Decimal_of_str_parts(2) [OF all ne all _ pe0] e0 val by (simp add: d)
      next
        case eneg: False
        define p where "p = nat (e + int n)"
        have p: "0 < p" "p < n" using True mid eneg by (simp_all add: p_def)
        have s: "dec_str d = take p ds @ CHR ''.'' # drop p ds @ []"
          using True mid eneg ns npos unfolding dec_str_def Let_def dsd len p_def e_def [symmetric] by simp
        have ip: "list_all is_digit (take p ds)" and fp: "list_all is_digit (drop p ds)"
          using list_all_take_drop [OF all] by simp_all
        have ipne: "take p ds \<noteq> []" using p ne by simp
        have x: "0 - int (length (drop p ds)) = e"
          using True mid eneg by (simp add: p_def n_def)
        show ?thesis
          unfolding s
          using Decimal_of_str_parts(1) [OF ip ipne fp _ pe0]
          unfolding x by (simp add: d val)
      qed
    qed
  next
    case False
    have ex: "CHR ''E'' # signed_str k = [] \<or> hd (CHR ''E'' # signed_str k) = CHR ''E''" for k by simp
    show ?thesis
    proof (cases "n = 1")
      case True
      have s: "dec_str d = ds @ CHR ''E'' # signed_str e"
        using False True ns npos unfolding dec_str_def Let_def dsd len e_def [symmetric] by auto
      show ?thesis
        unfolding s using Decimal_of_str_parts(2) [OF all ne all ex parse_exponent_signed_str] val
        by (simp add: d)
    next
      case n1: False
      then have n2: "1 < n" using npos by simp
      have s: "dec_str d = take 1 ds @ CHR ''.'' # drop 1 ds @ CHR ''E'' # signed_str (e + int n - 1)"
        using False n2 ns npos unfolding dec_str_def Let_def dsd len e_def [symmetric] by auto
      have ip: "list_all is_digit (take 1 ds)" and fp: "list_all is_digit (drop 1 ds)"
        using list_all_take_drop [OF all] by simp_all
      have ipne: "take 1 ds \<noteq> []" using ne by simp
      have x: "e + int n - 1 - int (length (drop 1 ds)) = e"
        using n2 by (simp add: n_def)
      show ?thesis
        unfolding s
        using Decimal_of_str_parts(1) [OF ip ipne fp ex [of "e + int n - 1"]
            parse_exponent_signed_str [of "e + int n - 1"]]
        unfolding x by (simp add: d val)
    qed
  qed
qed

section \<open>Conversion from wei\<close>

lemma numdigits_mono_bound: "c \<le> w \<Longrightarrow> w < 10 ^ k \<Longrightarrow> 0 < k \<Longrightarrow> numdigits c \<le> k"
  by (rule numdigits_le) simp_all

lemma MAX_WEI_less: "MAX_WEI < 10 ^ 78"
  by (simp add: MAX_WEI_def)

lemma numdigits_wei:
  assumes "int c \<le> MAX_WEI"
  shows "numdigits c \<le> 78"
proof -
  have "int c < 10 ^ 78" using assms MAX_WEI_less by linarith
  then have "c < 10 ^ 78" by (metis of_nat_less_iff of_nat_numeral of_nat_power)
  then show ?thesis by (rule numdigits_le) simp
qed

text \<open>A number of wei divided by the unit, in the context of precision 999.\<close>

lemma dec_div_wei:
  assumes cpos: "0 < c" and e: "- 18 \<le> e" "e \<le> 0" and nf: "c mod 10 \<noteq> 0 \<or> e = 0"
    and nd: "numdigits c \<le> 900"
  shows "dec_div 999 (dec_of_int (int c * 10 ^ nat (e + 18))) ether =
           Inr \<lparr>dec_sign = False, dec_int = c, dec_exp = e\<rparr>"
proof -
  define k where "k = nat (e + 18)"
  define n where "n = numdigits c"
  define s where "s = 1019 - n - k"
  let ?a = "dec_of_int (int c * 10 ^ k)"
  have k18: "k \<le> 18" using e by (simp add: k_def)
  have ek: "int k - 18 = e" using e by (simp add: k_def)
  have "int c * 10 ^ k = int (c * 10 ^ k)" by simp
  then have a: "dec_int ?a = c * 10 ^ k" "dec_sign ?a = False" "dec_exp ?a = 0"
    unfolding dec_of_int_def by (simp_all only: nat_int abs_of_nat decimal.select_convs of_nat_less_0_iff)
  have b: "dec_int ether = 10 ^ 18" "dec_sign ether = False" "dec_exp ether = 0"
    by (simp_all add: ether_def)
  have nda: "numdigits (dec_int ?a) = n + k"
    unfolding a n_def by (rule numdigits_mult_power [OF cpos])
  have h1: "dec_int ether \<noteq> 0" and h2: "dec_int ?a \<noteq> 0" using cpos by (simp_all add: a b)
  have h3: "int (numdigits (dec_int ether)) - int (numdigits (dec_int ?a)) + int 999 + 1 = int s"
    unfolding nda b numdigits_power s_def using nd k18 by (simp add: n_def)
  have s18: "18 \<le> s" using nd k18 by (simp add: s_def n_def)
  have ss: "s = (s - 18) + 18" using s18 by simp
  have "(10::nat) ^ s = 10 ^ (s - 18) * 10 ^ 18" by (subst ss) (rule power_add)
  then have h4: "dec_int ?a * 10 ^ s = (c * 10 ^ (k + (s - 18))) * dec_int ether"
    unfolding a b by (simp add: power_add)
  have "strip_zeros (c * 10 ^ (k + (s - 18))) (0 - 0 - int s) (0 - 0)
      = strip_zeros c (0 - 0 - int s + int (k + (s - 18))) (0 - 0)"
    using s18 k18 by (intro strip_zeros_power) simp
  also have "0 - 0 - int s + int (k + (s - 18)) = e" using s18 ek by simp
  also have "strip_zeros c e (0 - 0) = (c, e)"
    using nf e by (intro strip_zeros_stop) auto
  finally have h5: "strip_zeros (c * 10 ^ (k + (s - 18))) (dec_exp ?a - dec_exp ether - int s)
      (dec_exp ?a - dec_exp ether) = (c, e)"
    unfolding a b .
  have h6: "numdigits c \<le> 999" using nd by simp
  show ?thesis
    unfolding k_def [symmetric] using dec_div_exactI [OF h1 h2 h3 h4 h5 h6] by (simp add: a b)
qed

lemma from_wei_exact:
  assumes cpos: "0 < c" and e: "- 18 \<le> e" "e \<le> 0" and nf: "c mod 10 \<noteq> 0 \<or> e = 0"
    and r: "int c * 10 ^ nat (e + 18) \<le> MAX_WEI"
  shows "Web3_from_wei (int c * 10 ^ nat (e + 18)) = Inr (dec_str \<lparr>dec_sign = False, dec_int = c, dec_exp = e\<rparr>)"
    and "from_wei (int c * 10 ^ nat (e + 18)) = Inr \<lparr>dec_sign = False, dec_int = c, dec_exp = e\<rparr>"
proof -
  let ?w = "int c * 10 ^ nat (e + 18)"
  have wpos: "0 < ?w" using cpos by simp
  have "int c * 1 \<le> ?w" by (intro mult_left_mono) simp_all
  then have "int c \<le> MAX_WEI" using r by simp
  then have nd: "numdigits c \<le> 900" using numdigits_wei [of c] by simp
  show w: "Web3_from_wei ?w = Inr (dec_str \<lparr>dec_sign = False, dec_int = c, dec_exp = e\<rparr>)"
  proof -
    have c: "(?w = 0) = False" "(?w < MIN_WEI \<or> ?w > MAX_WEI) = False"
      using wpos r cpos by (simp_all add: MIN_WEI_def not_less)
    show ?thesis
      unfolding Web3_from_wei_def dec_div_wei [OF cpos e nf nd] c by simp
  qed
  show "from_wei ?w = Inr \<lparr>dec_sign = False, dec_int = c, dec_exp = e\<rparr>"
    unfolding from_wei_def w by (simp add: Decimal_of_str_dec_str)
qed


lemma wei_of_result_in_range:
  assumes "0 \<le> k" "int c * 10 ^ nat k \<le> MAX_WEI"
  shows "wei_of_result \<lparr>dec_sign = False, dec_int = c, dec_exp = k\<rparr> = Inr (int c * 10 ^ nat k)"
  using assms
  by (simp add: wei_of_result_def dec_less_int_def dec_greater_int_def dec_to_int_def dec_signed_def
      MIN_WEI_def not_less)



lemma to_wei_parsed: "Decimal_of_str s = Inr d \<Longrightarrow> to_wei s = Web3_to_wei d"
  by (simp add: to_wei_def)





section \<open>The scenario of 10.5 tokens\<close>

lemma digits_of_105: "digits_of 105 = ''105''"
  by (simp add: digits_of.simps digit_char_def)

text \<open>
  Claim C5. The amount \<open>"10.5"\<close> converts to 10500000000000000000 wei, and that number of
  wei converts back to the decimal 10.5, whose text is \<open>"10.5"\<close>.
\<close>

theorem ten_and_a_half:
  "to_wei ''10.5'' = Inr 10500000000000000000
   \<and> from_wei 10500000000000000000 = Inr \<lparr>dec_sign = False, dec_int = 105, dec_exp = - 1\<rparr>
   \<and> dec_str \<lparr>dec_sign = False, dec_int = 105, dec_exp = - 1\<rparr> = ''10.5''"
proof -
  let ?d = "\<lparr>dec_sign = False, dec_int = 105, dec_exp = - 1\<rparr>"
  have p: "Decimal_of_str ''10.5'' = Inr ?d"
    using Decimal_of_str_parts(1) [of "''10''" "''5''" "[]" 0]
    by (simp add: parse_exponent_def is_digit_def int_of_digits_def digit_val_def)
  have n: "numdigits 105 \<le> 900" using numdigits_le [of 105 3] by simp
  have "Web3_to_wei ?d = wei_of_result \<lparr>dec_sign = False, dec_int = 105, dec_exp = 17\<rparr>"
    using Web3_to_wei_nonneg [of ?d] n by simp
  also have "\<dots> = Inr (int 105 * 10 ^ nat 17)"
    by (rule wei_of_result_in_range) (simp_all add: MAX_WEI_def)
  finally have t: "to_wei ''10.5'' = Inr 10500000000000000000"
    using p by (simp add: to_wei_def)
  have "from_wei (int 105 * 10 ^ nat (- 1 + 18)) = Inr ?d"
    by (rule from_wei_exact(2)) (simp_all add: MAX_WEI_def)
  then have f: "from_wei 10500000000000000000 = Inr ?d" by simp
  have s: "dec_str ?d = ''10.5''"
    unfolding dec_str_def Let_def by (simp add: digits_of_105)
  from t f s show ?thesis by simp
qed

section \<open>Negative amounts and amounts with more than 18 fractional digits\<close>




section \<open>The round trip\<close>




section \<open>The length of a digest\<close>

lemma length_keccak_round [simp]: "length (keccak_round a rc) = 25"
  by (simp add: keccak_round_def iota_def chi_def)

lemma length_keccak_f [simp]: "length (keccak_f a) = 25"
  by (simp add: keccak_f_def RC_def)

lemma length_absorb [simp]: "length (absorb s blk) = 25"
  by (simp add: absorb_def)

lemma length_foldl_absorb: "length s = 25 \<Longrightarrow> length (foldl absorb s bl) = 25"
  by (induction bl arbitrary: s) simp_all

lemma length_state_bytes: "length (concat (map bytes_of_lane st)) = 8 * length st"
  by (induction st) (simp_all add: bytes_of_lane_def)

lemma length_keccak256 [simp]: "length (keccak256 m) = 32"
  by (simp add: keccak256_def length_state_bytes length_foldl_absorb)

section \<open>What a write operation that returns has done\<close>

lemma transact_returns:
  assumes "transact E c target func = (Inr h, tr)"
  shows "\<exists>a n g cid tx_hash.
           client_account c = Some a
         \<and> get_transaction_count E (account_address a) = Inr n
         \<and> gas_price E = Inr g \<and> chain_id E = Inr cid
         \<and> h = HexBytes_hex tx_hash
         \<and> tr = [GetTransactionCount (account_address a), GasPrice, ChainId,
                 SendRawTransaction (SignedTransaction (private_key a)
                   \<lparr>tx_call = func, tx_to = target, tx_from = account_address a, tx_nonce = n,
                    tx_gas = 500000, tx_gasPrice = g, tx_value = 0, tx_chainId = cid\<rparr>),
                 WaitForTransactionReceipt tx_hash]"
proof -
  from assms obtain t t1 t2 where b: "build_tx E c target func = (Inr t, t1)"
    and s: "send_tx E c t = (Inr h, t2)" and tr: "tr = t1 @ t2"
    unfolding transact_def by (blast dest: and_then_returns)
  from send_tx_returns [OF s] obtain a tx_hash where a: "client_account c = Some a"
    and h: "h = HexBytes_hex tx_hash"
    and t2: "t2 = [SendRawTransaction (SignedTransaction (private_key a) t),
                   WaitForTransactionReceipt tx_hash]"
    by blast
  have ca: "client_address c = Inr (account_address a)" using a by (simp add: client_address_def)
  from b obtain n g cid where n: "get_transaction_count E (account_address a) = Inr n"
    and g: "gas_price E = Inr g" and cid: "chain_id E = Inr cid"
    and t: "t = \<lparr>tx_call = func, tx_to = target, tx_from = account_address a, tx_nonce = n,
                 tx_gas = 500000, tx_gasPrice = g, tx_value = 0, tx_chainId = cid\<rparr>"
    and t1: "t1 = [GetTransactionCount (account_address a), GasPrice, ChainId]"
    unfolding build_tx_steps ca
    by (cases "get_transaction_count E (account_address a)"; cases "gas_price E"; cases "chain_id E")
      (auto simp: local_def)
  show ?thesis using a n g cid h tr t1 t2 t by simp
qed

section \<open>Payment identifiers\<close>

lemma pay_returns:
  assumes "pay E c recipient amount payment_id metadata = (Inr res, tr)"
  defines "pid \<equiv> (case payment_id of
                     None \<Rightarrow> keccak256 (encode_utf8 (''pay-'' @ digits_of (time_time E 0)))
                   | Some b \<Rightarrow> b)"
  shows "\<exists>target r w h.
           contract_attr c ''payment_router'' = Inr target
         \<and> to_checksum_address recipient = Inr r \<and> to_wei amount = Inr w \<and> length pid = 32
         \<and> transact E c target
              \<lparr>call_contract = ''payment_router'', call_function = ''pay'',
               call_args = [AbiAddress r, AbiUint w, AbiBytes pid, AbiBytes metadata]\<rparr> = (Inr h, tr)
         \<and> res = \<lparr>result_tx_hash = h,
                   result_payment_id = (case payment_id of
                                          None \<Rightarrow> HexBytes_hex pid
                                        | Some b \<Rightarrow> bytes_hex b)\<rparr>"
proof -
  note p = assms(1) [unfolded pay_def Let_def, folded pid_def]
  obtain target where target: "contract_attr c ''payment_router'' = Inr target"
    using p by (cases "contract_attr c ''payment_router''") simp_all
  obtain r where r: "to_checksum_address recipient = Inr r"
    using p target by (cases "to_checksum_address recipient") simp_all
  obtain w where w: "to_wei amount = Inr w"
    using p target r by (cases "to_wei amount") simp_all
  have len: "length pid = 32"
    using p target r w by (cases "length pid = 32") (simp_all add: abi_bytes32_def)
  from p obtain h t where "transact E c target
              \<lparr>call_contract = ''payment_router'', call_function = ''pay'',
               call_args = [AbiAddress r, AbiUint w, AbiBytes pid, AbiBytes metadata]\<rparr> = (Inr h, t)"
    and "local (Inr \<lparr>result_tx_hash = h,
                   result_payment_id = (case payment_id of
                                          None \<Rightarrow> HexBytes_hex pid
                                        | Some b \<Rightarrow> bytes_hex b)\<rparr>) = (Inr res, [])" and "tr = t"
    unfolding target r w by (auto simp: abi_bytes32_def len local_def dest!: and_then_returns)
  then show ?thesis using target r w len by (auto simp: local_def)
qed

lemma map_exc_length: "map_exc f xs = Inr ys \<Longrightarrow> length ys = length xs"
  by (induction xs arbitrary: ys) (auto split: sum.splits)

lemma batch_pay_returns:
  assumes "batch_pay E c payments = (Inr h, tr)"
  shows "\<exists>recipients amounts target.
           map_exc to_checksum_address (map fst payments) = Inr recipients
         \<and> map_exc to_wei (map snd payments) = Inr amounts
         \<and> contract_attr c ''payment_router'' = Inr target
         \<and> transact E c target
              \<lparr>call_contract = ''payment_router'', call_function = ''batchPay'',
               call_args =
                 [AbiArray (map AbiAddress recipients), AbiArray (map AbiUint amounts),
                  AbiArray (map AbiBytes
                    (map (\<lambda>i. keccak256 (encode_utf8
                                 (''batch-'' @ digits_of (time_time E i) @ ''-'' @ digits_of i)))
                       [0..<length payments])),
                  AbiArray []]\<rparr> = (Inr h, tr)"
proof -
  note p = assms [unfolded batch_pay_def Let_def]
  obtain recipients where r: "map_exc to_checksum_address (map fst payments) = Inr recipients"
    using p by (cases "map_exc to_checksum_address (map fst payments)") simp_all
  obtain amounts where w: "map_exc to_wei (map snd payments) = Inr amounts"
    using p r by (cases "map_exc to_wei (map snd payments)") simp_all
  obtain target where target: "contract_attr c ''payment_router'' = Inr target"
    using p r w by (cases "contract_attr c ''payment_router''") simp_all
  show ?thesis using p unfolding r w target by simp
qed

lemma to_wei_in_range:
  assumes "Decimal_of_str s = Inr d" and "\<not> dec_sign d" and "dec_int d \<noteq> 0" and "- 18 \<le> dec_exp d"
    and "int (dec_int d) * 10 ^ nat (dec_exp d + 18) \<le> MAX_WEI"
  shows "to_wei s = Inr (int (dec_int d) * 10 ^ nat (dec_exp d + 18))"
proof -
  have "int (dec_int d) * 1 \<le> int (dec_int d) * 10 ^ nat (dec_exp d + 18)"
    by (intro mult_left_mono) simp_all
  then have "int (dec_int d) \<le> MAX_WEI" using assms(5) by simp
  then have n: "numdigits (dec_int d) \<le> 900" using numdigits_wei [of "dec_int d"] by simp
  have "to_wei s = wei_of_result \<lparr>dec_sign = False, dec_int = dec_int d, dec_exp = dec_exp d + 18\<rparr>"
    using Web3_to_wei_nonneg [OF assms(2,3) n] assms(4) by (simp add: to_wei_parsed [OF assms(1)])
  also have "\<dots> = Inr (int (dec_int d) * 10 ^ nat (dec_exp d + 18))"
    using assms(4,5) by (intro wei_of_result_in_range) simp_all
  finally show ?thesis .
qed

section \<open>Evaluating the operations at the concrete client and node\<close>

lemma to_wei_examples:
  "to_wei ''10.5'' = Inr 10500000000000000000" "to_wei ''2'' = Inr 2000000000000000000"
proof -
  have p: "Decimal_of_str ''10.5'' = Inr \<lparr>dec_sign = False, dec_int = 105, dec_exp = - 1\<rparr>"
    using Decimal_of_str_parts(1) [of "''10''" "''5''" "[]" 0]
    by (simp add: parse_exponent_def is_digit_def int_of_digits_def digit_val_def)
  show "to_wei ''10.5'' = Inr 10500000000000000000"
    using to_wei_in_range [OF p] by (simp add: MAX_WEI_def)
  have q: "Decimal_of_str ''2'' = Inr \<lparr>dec_sign = False, dec_int = 2, dec_exp = 0\<rparr>"
    using Decimal_of_str_parts(2) [of "''2''" "[]" "[]" 0]
    by (simp add: parse_exponent_def is_digit_def int_of_digits_def digit_val_def)
  show "to_wei ''2'' = Inr 2000000000000000000"
    using to_wei_in_range [OF q] by (simp add: MAX_WEI_def)
qed

lemma example_addresses:
  "to_checksum_address ''0x00000000000000000000000000000000000000b2'' = Inr 0xb2"
  "to_checksum_address ''0x00000000000000000000000000000000000000b3'' = Inr 0xb3"
  by (simp_all add: to_checksum_address_def strip_0x_def hex_value_def be_nat_def)

lemma example_contracts:
  "contract_attr example_client ''payment_router'' = Inr 0xc1"
  "contract_attr example_client ''reputation'' = Inr 0xc2"
  "contract_attr example_client ''payment_channel'' = Inr 0xc4"
  by (simp_all add: contract_attr_def example_client_def)

lemma digits_of_example_time: "digits_of 1700000000 = ''1700000000''"
  by (simp add: digits_of.simps digit_char_def)

lemma digits_of_small: "digits_of 0 = ''0''" "digits_of 1 = ''1''"
  by (simp_all add: digits_of.simps digit_char_def)

text \<open>The concrete node with another transaction count for the account.\<close>

lemma transact_example:
  "transact ((example_env 1)\<lparr>get_transaction_count := \<lambda>_. Inr n\<rparr>) example_client target func =
     (Inr ''0xabababababababababababababababababababababababababababababababab'',
      [GetTransactionCount 0xa1, GasPrice, ChainId,
       SendRawTransaction (SignedTransaction (replicate 32 0x11)
         \<lparr>tx_call = func, tx_to = target, tx_from = 0xa1, tx_nonce = n, tx_gas = 500000,
          tx_gasPrice = 100, tx_value = 0, tx_chainId = 421614\<rparr>),
       WaitForTransactionReceipt (replicate 32 0xab)])"
  unfolding transact_def build_tx_steps and_then_assoc
  by (simp add: example_client_def example_env_def example_account_def client_address_def
      send_tx_def example_hash_hex)

lemma example_env_count: "(example_env st)\<lparr>get_transaction_count := \<lambda>_. Inr 7\<rparr> = example_env st"
  by (simp add: example_env_def)

section \<open>The default payment identifier\<close>

text \<open>
  Claim C9, as the claim states it, fails for \<open>pay\<close>: the default payment id is the hash of
  the text \<open>pay-<seconds>\<close>, in which there is the time and nothing else. Two payments made
  within the same second, to different recipients, of different amounts and with different
  transaction counts of the account, get the same payment id.
\<close>

theorem pay_default_id_has_no_nonce:
  "fst (pay (example_env 1) example_client
          ''0x00000000000000000000000000000000000000b2'' ''10.5'' None [])
     = Inr \<lparr>result_tx_hash = ''0xabababababababababababababababababababababababababababababababab'',
            result_payment_id = HexBytes_hex (keccak256 (encode_utf8 ''pay-1700000000''))\<rparr>
   \<and> fst (pay ((example_env 1)\<lparr>get_transaction_count := \<lambda>_. Inr 8\<rparr>) example_client
          ''0x00000000000000000000000000000000000000b3'' ''2'' None [])
     = Inr \<lparr>result_tx_hash = ''0xabababababababababababababababababababababababababababababababab'',
            result_payment_id = HexBytes_hex (keccak256 (encode_utf8 ''pay-1700000000''))\<rparr>"
proof -
  have t: "time_time ((example_env 1)\<lparr>get_transaction_count := \<lambda>_. Inr n\<rparr>) 0 = 1700000000" for n
    by (simp add: example_env_def)
  have a: "fst (pay ((example_env 1)\<lparr>get_transaction_count := \<lambda>_. Inr 7\<rparr>) example_client
          ''0x00000000000000000000000000000000000000b2'' ''10.5'' None [])
     = Inr \<lparr>result_tx_hash = ''0xabababababababababababababababababababababababababababababababab'',
            result_payment_id = HexBytes_hex (keccak256 (encode_utf8 ''pay-1700000000''))\<rparr>"
    unfolding pay_def Let_def t digits_of_example_time
    by (simp add: example_contracts example_addresses to_wei_examples abi_bytes32_def
        transact_example local_def)
  have b: "fst (pay ((example_env 1)\<lparr>get_transaction_count := \<lambda>_. Inr 8\<rparr>) example_client
          ''0x00000000000000000000000000000000000000b3'' ''2'' None [])
     = Inr \<lparr>result_tx_hash = ''0xabababababababababababababababababababababababababababababababab'',
            result_payment_id = HexBytes_hex (keccak256 (encode_utf8 ''pay-1700000000''))\<rparr>"
    unfolding pay_def Let_def t digits_of_example_time
    by (simp add: example_contracts example_addresses to_wei_examples abi_bytes32_def
        transact_example local_def)
  from a b show ?thesis unfolding example_env_count by simp
qed

text \<open>
  Claim C9, amended. When \<open>pay\<close> gets no payment id, the id it passes to the contract and
  returns is the Keccak-256 hash, 32 bytes, of the text \<open>pay-<seconds>\<close>: it is derived
  from the time alone. When \<open>pay\<close> gets a payment id, that value is passed to the contract
  unchanged (and it has 32 bytes, or the call would not have been made). \<open>batch_pay\<close> takes
  no payment id from its caller: the id of its entry number \<open>i\<close> is the hash of the text
  \<open>batch-<seconds>-<i>\<close>, derived from the time and the position of the entry.
\<close>

theorem payment_ids_of_pay_and_batch_pay:
  "(pay E c recipient amount None metadata = (Inr res, tr) \<longrightarrow>
      length (keccak256 (encode_utf8 (''pay-'' @ digits_of (time_time E 0)))) = 32
    \<and> result_payment_id res
        = HexBytes_hex (keccak256 (encode_utf8 (''pay-'' @ digits_of (time_time E 0))))
    \<and> (\<exists>a t r w. client_account c = Some a
          \<and> SendRawTransaction (SignedTransaction (private_key a) t) \<in> set tr
          \<and> call_function (tx_call t) = ''pay''
          \<and> call_args (tx_call t)
              = [AbiAddress r, AbiUint w,
                 AbiBytes (keccak256 (encode_utf8 (''pay-'' @ digits_of (time_time E 0)))),
                 AbiBytes metadata]))
   \<and> (pay E c recipient amount (Some b) metadata = (Inr res, tr) \<longrightarrow>
      length b = 32 \<and> result_payment_id res = bytes_hex b
    \<and> (\<exists>a t r w. client_account c = Some a
          \<and> SendRawTransaction (SignedTransaction (private_key a) t) \<in> set tr
          \<and> call_function (tx_call t) = ''pay''
          \<and> call_args (tx_call t) = [AbiAddress r, AbiUint w, AbiBytes b, AbiBytes metadata]))
   \<and> (batch_pay E c payments = (Inr h, tr) \<longrightarrow>
      (\<exists>a t rs ws. client_account c = Some a
          \<and> SendRawTransaction (SignedTransaction (private_key a) t) \<in> set tr
          \<and> call_function (tx_call t) = ''batchPay''
          \<and> call_args (tx_call t)
              = [AbiArray rs, AbiArray ws,
                 AbiArray (map AbiBytes
                   (map (\<lambda>i. keccak256 (encode_utf8
                                (''batch-'' @ digits_of (time_time E i) @ ''-'' @ digits_of i)))
                      [0..<length payments])),
                 AbiArray []]))"
proof (intro conjI impI)
  assume p: "pay E c recipient amount None metadata = (Inr res, tr)"
  from pay_returns [OF p] obtain target r w h where
    tr: "transact E c target
              \<lparr>call_contract = ''payment_router'', call_function = ''pay'',
               call_args = [AbiAddress r, AbiUint w,
                 AbiBytes (keccak256 (encode_utf8 (''pay-'' @ digits_of (time_time E 0)))),
                 AbiBytes metadata]\<rparr> = (Inr h, tr)"
    and res: "res = \<lparr>result_tx_hash = h,
        result_payment_id = HexBytes_hex (keccak256 (encode_utf8 (''pay-'' @ digits_of (time_time E 0))))\<rparr>"
    by auto
  show "length (keccak256 (encode_utf8 (''pay-'' @ digits_of (time_time E 0)))) = 32" by simp
  show "result_payment_id res
        = HexBytes_hex (keccak256 (encode_utf8 (''pay-'' @ digits_of (time_time E 0))))"
    using res by simp
  from transact_returns [OF tr]
  show "\<exists>a t r w. client_account c = Some a
          \<and> SendRawTransaction (SignedTransaction (private_key a) t) \<in> set tr
          \<and> call_function (tx_call t) = ''pay''
          \<and> call_args (tx_call t)
              = [AbiAddress r, AbiUint w,
                 AbiBytes (keccak256 (encode_utf8 (''pay-'' @ digits_of (time_time E 0)))),
                 AbiBytes metadata]"
    by fastforce
next
  assume p: "pay E c recipient amount (Some b) metadata = (Inr res, tr)"
  from pay_returns [OF p] obtain target r w h where
    tr: "transact E c target
              \<lparr>call_contract = ''payment_router'', call_function = ''pay'',
               call_args = [AbiAddress r, AbiUint w, AbiBytes b, AbiBytes metadata]\<rparr> = (Inr h, tr)"
    and res: "res = \<lparr>result_tx_hash = h, result_payment_id = bytes_hex b\<rparr>"
    and len: "length b = 32"
    by auto
  show "length b = 32" by (rule len)
  show "result_payment_id res = bytes_hex b" using res by simp
  from transact_returns [OF tr]
  show "\<exists>a t r w. client_account c = Some a
          \<and> SendRawTransaction (SignedTransaction (private_key a) t) \<in> set tr
          \<and> call_function (tx_call t) = ''pay''
          \<and> call_args (tx_call t) = [AbiAddress r, AbiUint w, AbiBytes b, AbiBytes metadata]"
    by fastforce
next
  assume p: "batch_pay E c payments = (Inr h, tr)"
  from batch_pay_returns [OF p] obtain recipients amounts target where
    tr: "transact E c target
              \<lparr>call_contract = ''payment_router'', call_function = ''batchPay'',
               call_args =
                 [AbiArray (map AbiAddress recipients), AbiArray (map AbiUint amounts),
                  AbiArray (map AbiBytes
                    (map (\<lambda>i. keccak256 (encode_utf8
                                 (''batch-'' @ digits_of (time_time E i) @ ''-'' @ digits_of i)))
                       [0..<length payments])),
                  AbiArray []]\<rparr> = (Inr h, tr)"
    by blast
  from transact_returns [OF tr]
  show "\<exists>a t rs ws. client_account c = Some a
          \<and> SendRawTransaction (SignedTransaction (private_key a) t) \<in> set tr
          \<and> call_function (tx_call t) = ''batchPay''
          \<and> call_args (tx_call t)
              = [AbiArray rs, AbiArray ws,
                 AbiArray (map AbiBytes
                   (map (\<lambda>i. keccak256 (encode_utf8
                                (''batch-'' @ digits_of (time_time E i) @ ''-'' @ digits_of i)))
                      [0..<length payments])),
                 AbiArray []]"
    by fastforce
qed

lemma transact_example_env:
  "transact (example_env 1) example_client target func =
     (Inr ''0xabababababababababababababababababababababababababababababababab'',
      [GetTransactionCount 0xa1, GasPrice, ChainId,
       SendRawTransaction (SignedTransaction (replicate 32 0x11)
         \<lparr>tx_call = func, tx_to = target, tx_from = 0xa1, tx_nonce = 7, tx_gas = 500000,
          tx_gasPrice = 100, tx_value = 0, tx_chainId = 421614\<rparr>),
       WaitForTransactionReceipt (replicate 32 0xab)])"
  using transact_example [of 7 target func] unfolding example_env_count .

theorem payment_ids_of_pay_and_batch_pay_witness:
  "(\<exists>res tr. pay (example_env 1) example_client
        ''0x00000000000000000000000000000000000000b2'' ''10.5'' None [] = (Inr res, tr)
      \<and> result_payment_id res = HexBytes_hex (keccak256 (encode_utf8 ''pay-1700000000''))
      \<and> (\<exists>a t r w. client_account example_client = Some a
            \<and> SendRawTransaction (SignedTransaction (private_key a) t) \<in> set tr
            \<and> call_function (tx_call t) = ''pay''
            \<and> call_args (tx_call t)
                = [AbiAddress r, AbiUint w,
                   AbiBytes (keccak256 (encode_utf8 ''pay-1700000000'')), AbiBytes []]))
   \<and> (\<exists>res tr. pay (example_env 1) example_client
        ''0x00000000000000000000000000000000000000b2'' ''10.5'' (Some (replicate 32 7)) []
          = (Inr res, tr)
      \<and> result_payment_id res = bytes_hex (replicate 32 7)
      \<and> (\<exists>a t r w. client_account example_client = Some a
            \<and> SendRawTransaction (SignedTransaction (private_key a) t) \<in> set tr
            \<and> call_function (tx_call t) = ''pay''
            \<and> call_args (tx_call t)
                = [AbiAddress r, AbiUint w, AbiBytes (replicate 32 7), AbiBytes []]))
   \<and> (\<exists>h tr. batch_pay (example_env 1) example_client
        [(''0x00000000000000000000000000000000000000b2'', ''10.5''),
         (''0x00000000000000000000000000000000000000b3'', ''2'')] = (Inr h, tr)
      \<and> (\<exists>a t rs ws. client_account example_client = Some a
            \<and> SendRawTransaction (SignedTransaction (private_key a) t) \<in> set tr
            \<and> call_function (tx_call t) = ''batchPay''
            \<and> call_args (tx_call t)
                = [AbiArray rs, AbiArray ws,
                   AbiArray [AbiBytes (keccak256 (encode_utf8 ''batch-1700000000-0'')),
                             AbiBytes (keccak256 (encode_utf8 ''batch-1700000000-1''))],
                   AbiArray []]))"
proof -
  note main = payment_ids_of_pay_and_batch_pay [where E = "example_env 1" and c = example_client]
  have t: "time_time (example_env 1) i = 1700000000" for i by (simp add: example_env_def)
  obtain res1 tr1 where e1: "pay (example_env 1) example_client
        ''0x00000000000000000000000000000000000000b2'' ''10.5'' None [] = (Inr res1, tr1)"
    unfolding pay_def Let_def t digits_of_example_time
    by (simp add: example_contracts example_addresses to_wei_examples abi_bytes32_def
        transact_example_env local_def)
  obtain res2 tr2 where e2: "pay (example_env 1) example_client
        ''0x00000000000000000000000000000000000000b2'' ''10.5'' (Some (replicate 32 7)) []
          = (Inr res2, tr2)"
    unfolding pay_def Let_def
    by (simp add: example_contracts example_addresses to_wei_examples abi_bytes32_def
        transact_example_env local_def)
  obtain h tr3 where e3: "batch_pay (example_env 1) example_client
        [(''0x00000000000000000000000000000000000000b2'', ''10.5''),
         (''0x00000000000000000000000000000000000000b3'', ''2'')] = (Inr h, tr3)"
    unfolding batch_pay_def Let_def
    by (simp add: example_contracts example_addresses to_wei_examples transact_example_env)
  have d1: "digits_of (Suc 0) = ''1''" using digits_of_small(2) by simp
  have u: "[0..<length [(''0x00000000000000000000000000000000000000b2'', ''10.5''),
         (''0x00000000000000000000000000000000000000b3'', ''2'')]] = [0, 1]"
    by (simp add: upt_conv_Cons)
  from main [THEN conjunct1, rule_format, OF e1] e1
  have a: "\<exists>res tr. pay (example_env 1) example_client
        ''0x00000000000000000000000000000000000000b2'' ''10.5'' None [] = (Inr res, tr)
      \<and> result_payment_id res = HexBytes_hex (keccak256 (encode_utf8 ''pay-1700000000''))
      \<and> (\<exists>a t r w. client_account example_client = Some a
            \<and> SendRawTransaction (SignedTransaction (private_key a) t) \<in> set tr
            \<and> call_function (tx_call t) = ''pay''
            \<and> call_args (tx_call t)
                = [AbiAddress r, AbiUint w,
                   AbiBytes (keccak256 (encode_utf8 ''pay-1700000000'')), AbiBytes []])"
    unfolding t digits_of_example_time by auto
  from main [THEN conjunct2, THEN conjunct1, rule_format, OF e2] e2
  have b: "\<exists>res tr. pay (example_env 1) example_client
        ''0x00000000000000000000000000000000000000b2'' ''10.5'' (Some (replicate 32 7)) []
          = (Inr res, tr)
      \<and> result_payment_id res = bytes_hex (replicate 32 7)
      \<and> (\<exists>a t r w. client_account example_client = Some a
            \<and> SendRawTransaction (SignedTransaction (private_key a) t) \<in> set tr
            \<and> call_function (tx_call t) = ''pay''
            \<and> call_args (tx_call t)
                = [AbiAddress r, AbiUint w, AbiBytes (replicate 32 7), AbiBytes []])"
    by auto
  from main [THEN conjunct2, THEN conjunct2, rule_format, OF e3] e3
  have c: "\<exists>h tr. batch_pay (example_env 1) example_client
        [(''0x00000000000000000000000000000000000000b2'', ''10.5''),
         (''0x00000000000000000000000000000000000000b3'', ''2'')] = (Inr h, tr)
      \<and> (\<exists>a t rs ws. client_account example_client = Some a
            \<and> SendRawTransaction (SignedTransaction (private_key a) t) \<in> set tr
            \<and> call_function (tx_call t) = ''batchPay''
            \<and> call_args (tx_call t)
                = [AbiArray rs, AbiArray ws,
                   AbiArray [AbiBytes (keccak256 (encode_utf8 ''batch-1700000000-0'')),
                             AbiBytes (keccak256 (encode_utf8 ''batch-1700000000-1''))],
                   AbiArray []])"
    unfolding t u digits_of_example_time by (auto simp: digits_of_small d1)
  from a b c show ?thesis by blast
qed

end
